theory Spec2Isabelle
  imports Complex_Main "HOL-Library.Sublist"
begin

section \<open>Data model (src/models/export\_models.py)\<close>

text \<open>
  Entities arrive as JSON objects validated by pydantic with \<open>extra = "allow"\<close>: the five
  declared fields plus an open bag of further fields. A value of that bag is one of the
  Python objects a JSON document (or a direct Python caller) can put there. Numbers: a
  Python \<open>int\<close> is an \<open>int\<close>; a Python \<open>float\<close> is taken as the real number it denotes
  (rounding and the non-finite floats are outside this model). A \<open>dict\<close> is an association
  list with string keys, read with \<open>map_of\<close>.
\<close>

datatype jval =
    JNone
  | JBool bool
  | JInt int
  | JFloat real
  | JStr string
  | JList "jval list"
  | JTuple "jval list"
  | JDict "(string \<times> jval) list"

datatype DxfVersion = AC1009 | AC1015 | AC1018 | AC1021 | AC1024 | AC1027 | AC1032

datatype DxfExportStatus = SUCCESS | PARTIAL | ERROR

datatype IssueSeverity = SevERROR | SevWARNING | SevINFO

record DxfLayerConfig =
  visible_only :: bool
  include_locked :: bool
  flatten_to_layer :: "string option"
  layer_mapping :: "(string \<times> string) list"
  default_layer :: string

text \<open>Of \<open>DxfExportSettings\<close> the conversion reads the version and the layer configuration.\<close>

record DxfExportSettings =
  version :: DxfVersion
  layers :: DxfLayerConfig

record SceneEntity =
  e_id :: string
  e_type :: string
  e_layer :: string
  e_color :: "string option"
  e_visible :: bool
  e_extra :: "(string \<times> jval) list"

record SceneModel =
  entities :: "SceneEntity list"

text \<open>
  The exceptions the conversion can meet: the three that the builtin \<open>float()\<close> raises, and
  an exception of the document writer, carried with its message.
\<close>

datatype py_exc = TypeError | ValueError | OverflowError | WriterError string

text \<open>
  The \<open>error\<close> field of a per-entity result is one of the service's fixed messages or
  \<open>str(e)\<close> of a caught exception.
\<close>

datatype err_text = Msg string | StrOf py_exc

record DxfEntityExportResult =
  entity_id :: string
  success :: bool
  dxf_type :: "string option"
  warnings :: "string list"
  error :: "err_text option"

record ExportStats =
  total_entities :: nat
  exported_entities :: nat
  skipped_entities :: nat
  failed_entities :: nat

record ValidationIssue =
  severity :: IssueSeverity
  code :: string
  message :: string
  suggestion :: "string option"

record DxfEntityValidationResult =
  v_entity_id :: string
  v_entity_type :: string
  exportable :: bool
  issues :: "ValidationIssue list"

record IssueSummary =
  errors :: nat
  summary_warnings :: nat
  info :: nat

record DxfExportValidationResponse =
  valid :: bool
  target_version :: DxfVersion
  v_total_entities :: nat
  exportable_entities :: nat
  non_exportable_entities :: nat
  v_entity_results :: "DxfEntityValidationResult list"
  issue_summary :: IssueSummary

section \<open>The drawing primitives and the document writer\<close>

type_synonym point = "real \<times> real"

record attribs =
  a_layer :: string
  a_color :: "nat option"
  a_height :: "real option"
  a_rotation :: "real option"

datatype primitive =
    Line point point attribs
  | LwPolyline "point list" bool attribs
  | Circle point real attribs
  | Arc point real real real attribs
  | Text string attribs point
  | Point point attribs

text \<open>
  The modelspace is the sequence of primitives added so far. The writer (ezdxf) is an
  external library: whether it accepts a primitive is a parameter, \<open>None\<close> for acceptance
  and \<open>Some e\<close> for the exception it raises instead of adding.
\<close>

type_synonym Modelspace = "primitive list"
type_synonym writer = "primitive \<Rightarrow> py_exc option"

definition add_entity :: "writer \<Rightarrow> Modelspace \<Rightarrow> primitive \<Rightarrow> py_exc + Modelspace" where
  "add_entity w msp p = (case w p of None \<Rightarrow> Inr (msp @ [p]) | Some e \<Rightarrow> Inl e)"

section \<open>Static tables (dxf\_export\_service.py, lines 59--105)\<close>

definition ENTITY_TYPE_MAPPING :: "(string \<times> string option) list" where
  "ENTITY_TYPE_MAPPING =
    [(''line'', Some ''LINE''),
     (''polyline'', Some ''POLYLINE''),
     (''lwpolyline'', Some ''LWPOLYLINE''),
     (''circle'', Some ''CIRCLE''),
     (''arc'', Some ''ARC''),
     (''ellipse'', Some ''ELLIPSE''),
     (''text'', Some ''TEXT''),
     (''mtext'', Some ''MTEXT''),
     (''spline'', Some ''SPLINE''),
     (''rectangle'', Some ''LWPOLYLINE''),
     (''rect'', Some ''LWPOLYLINE''),
     (''point'', Some ''POINT''),
     (''dimension'', Some ''DIMENSION''),
     (''block'', Some ''INSERT''),
     (''angle-measurement'', None),
     (''leader'', Some ''LEADER''),
     (''hatch'', Some ''HATCH''),
     (''xline'', Some ''XLINE''),
     (''ray'', Some ''RAY'')]"

text \<open>\<open>ENTITY_TYPE_MAPPING.get(t)\<close>: \<open>None\<close> for a key that is absent and for a key mapped to \<open>None\<close>.\<close>

definition mapping_get :: "string \<Rightarrow> string option" where
  "mapping_get t = (case map_of ENTITY_TYPE_MAPPING t of None \<Rightarrow> None | Some d \<Rightarrow> d)"

definition R12_SUPPORTED_TYPES :: "string list" where
  "R12_SUPPORTED_TYPES = [''LINE'', ''POLYLINE'', ''CIRCLE'', ''ARC'', ''TEXT'', ''POINT'']"

section \<open>Geometry extraction (lines 635--712)\<close>

text \<open>
  \<open>entity.model_dump()\<close>: the declared fields, then the extra ones. A declared name cannot
  recur among the extras (pydantic reads it as the field), so the first binding of
  \<open>map_of\<close> is the dictionary's one.
\<close>

definition model_dump :: "SceneEntity \<Rightarrow> (string \<times> jval) list" where
  "model_dump e =
    [(''id'', JStr (e_id e)),
     (''type'', JStr (e_type e)),
     (''layer'', JStr (e_layer e)),
     (''color'', (case e_color e of None \<Rightarrow> JNone | Some c \<Rightarrow> JStr c)),
     (''visible'', JBool (e_visible e))] @ e_extra e"

text \<open>
  The builtin \<open>float(v)\<close>. A \<open>bool\<close> is an \<open>int\<close>. An \<open>int\<close> that rounds beyond the largest
  double raises \<open>OverflowError\<close>. A \<open>str\<close> is parsed by the builtin's own grammar, which is
  the parameter \<open>sf\<close> (\<open>None\<close> where the builtin raises \<open>ValueError\<close>). Every other
  object raises \<open>TypeError\<close>.
\<close>

definition float_max_int :: int where
  "float_max_int = 2 ^ 1024 - 2 ^ 970"

definition py_float :: "(string \<Rightarrow> real option) \<Rightarrow> jval \<Rightarrow> py_exc + real" where
  "py_float sf v =
    (case v of
       JBool b \<Rightarrow> Inr (if b then 1 else 0)
     | JInt i \<Rightarrow> (if \<bar>i\<bar> < float_max_int then Inr (of_int i) else Inl OverflowError)
     | JFloat r \<Rightarrow> Inr r
     | JStr s \<Rightarrow> (case sf s of None \<Rightarrow> Inl ValueError | Some r \<Rightarrow> Inr r)
     | _ \<Rightarrow> Inl TypeError)"

text \<open>\<open>val.get(k, d)\<close> on a dictionary.\<close>

definition dict_get :: "(string \<times> jval) list \<Rightarrow> string \<Rightarrow> jval \<Rightarrow> jval" where
  "dict_get d k dflt = (case map_of d k of None \<Rightarrow> dflt | Some v \<Rightarrow> v)"

text \<open>\<open>(float(x), float(y))\<close>: \<open>x\<close> is coerced first, and the first failure is the one raised.\<close>

definition float_pair :: "(string \<Rightarrow> real option) \<Rightarrow> jval \<Rightarrow> jval \<Rightarrow> py_exc + point" where
  "float_pair sf x y =
    (case py_float sf x of
       Inl e \<Rightarrow> Inl e
     | Inr fx \<Rightarrow> (case py_float sf y of Inl e \<Rightarrow> Inl e | Inr fy \<Rightarrow> Inr (fx, fy)))"

text \<open>
  \<open>_get_point\<close>, the loop over the keys. A key whose value is a dictionary without both
  coordinates, a sequence shorter than two, or any other object, is passed over.
\<close>

fun get_point_loop ::
  "(string \<Rightarrow> real option) \<Rightarrow> (string \<times> jval) list \<Rightarrow> string list \<Rightarrow> py_exc + point option" where
  "get_point_loop sf data [] = Inr None"
| "get_point_loop sf data (key # keys) =
    (case map_of data key of
       None \<Rightarrow> get_point_loop sf data keys
     | Some val \<Rightarrow>
        (case val of
           JDict d \<Rightarrow>
             (let x = dict_get d ''x'' (dict_get d ''X'' JNone);
                  y = dict_get d ''y'' (dict_get d ''Y'' JNone)
              in if x \<noteq> JNone \<and> y \<noteq> JNone
                 then (case float_pair sf x y of Inl e \<Rightarrow> Inl e | Inr p \<Rightarrow> Inr (Some p))
                 else get_point_loop sf data keys)
         | JList l \<Rightarrow>
             (if length l \<ge> 2
              then (case float_pair sf (l ! 0) (l ! 1) of Inl e \<Rightarrow> Inl e | Inr p \<Rightarrow> Inr (Some p))
              else get_point_loop sf data keys)
         | JTuple l \<Rightarrow>
             (if length l \<ge> 2
              then (case float_pair sf (l ! 0) (l ! 1) of Inl e \<Rightarrow> Inl e | Inr p \<Rightarrow> Inr (Some p))
              else get_point_loop sf data keys)
         | _ \<Rightarrow> get_point_loop sf data keys))"

definition get_point ::
  "(string \<Rightarrow> real option) \<Rightarrow> SceneEntity \<Rightarrow> string list \<Rightarrow> py_exc + point option" where
  "get_point sf entity keys = get_point_loop sf (model_dump entity) keys"

text \<open>
  \<open>_get_points\<close>: the inner loop appends the point of every item that has the shape of one
  and passes over the others; the outer loop returns the first non-empty list.
\<close>

fun points_of_items :: "(string \<Rightarrow> real option) \<Rightarrow> jval list \<Rightarrow> py_exc + point list" where
  "points_of_items sf [] = Inr []"
| "points_of_items sf (item # items) =
    (case item of
       JDict d \<Rightarrow>
         (let x = dict_get d ''x'' (dict_get d ''X'' JNone);
              y = dict_get d ''y'' (dict_get d ''Y'' JNone)
          in if x \<noteq> JNone \<and> y \<noteq> JNone
             then (case float_pair sf x y of
                     Inl e \<Rightarrow> Inl e
                   | Inr p \<Rightarrow> (case points_of_items sf items of
                                Inl e \<Rightarrow> Inl e | Inr ps \<Rightarrow> Inr (p # ps)))
             else points_of_items sf items)
     | JList l \<Rightarrow>
         (if length l \<ge> 2
          then (case float_pair sf (l ! 0) (l ! 1) of
                  Inl e \<Rightarrow> Inl e
                | Inr p \<Rightarrow> (case points_of_items sf items of
                             Inl e \<Rightarrow> Inl e | Inr ps \<Rightarrow> Inr (p # ps)))
          else points_of_items sf items)
     | JTuple l \<Rightarrow>
         (if length l \<ge> 2
          then (case float_pair sf (l ! 0) (l ! 1) of
                  Inl e \<Rightarrow> Inl e
                | Inr p \<Rightarrow> (case points_of_items sf items of
                             Inl e \<Rightarrow> Inl e | Inr ps \<Rightarrow> Inr (p # ps)))
          else points_of_items sf items)
     | _ \<Rightarrow> points_of_items sf items)"

fun get_points_loop ::
  "(string \<Rightarrow> real option) \<Rightarrow> (string \<times> jval) list \<Rightarrow> string list \<Rightarrow> py_exc + point list option" where
  "get_points_loop sf data [] = Inr None"
| "get_points_loop sf data (key # keys) =
    (case map_of data key of
       None \<Rightarrow> get_points_loop sf data keys
     | Some val \<Rightarrow>
        (case val of
           JList l \<Rightarrow>
             (case points_of_items sf l of
                Inl e \<Rightarrow> Inl e
              | Inr points \<Rightarrow> if points \<noteq> [] then Inr (Some points)
                              else get_points_loop sf data keys)
         | _ \<Rightarrow> get_points_loop sf data keys))"

definition get_points ::
  "(string \<Rightarrow> real option) \<Rightarrow> SceneEntity \<Rightarrow> string list \<Rightarrow> py_exc + point list option" where
  "get_points sf entity keys = get_points_loop sf (model_dump entity) keys"

text \<open>\<open>_get_float\<close>: \<open>isinstance(val, (int, float))\<close> holds of a \<open>bool\<close> too.\<close>

fun get_float_loop ::
  "(string \<Rightarrow> real option) \<Rightarrow> (string \<times> jval) list \<Rightarrow> string list \<Rightarrow> py_exc + real option" where
  "get_float_loop sf data [] = Inr None"
| "get_float_loop sf data (key # keys) =
    (case map_of data key of
       None \<Rightarrow> get_float_loop sf data keys
     | Some val \<Rightarrow>
        (case val of
           JBool b \<Rightarrow> (case py_float sf val of Inl e \<Rightarrow> Inl e | Inr r \<Rightarrow> Inr (Some r))
         | JInt i \<Rightarrow> (case py_float sf val of Inl e \<Rightarrow> Inl e | Inr r \<Rightarrow> Inr (Some r))
         | JFloat f \<Rightarrow> (case py_float sf val of Inl e \<Rightarrow> Inl e | Inr r \<Rightarrow> Inr (Some r))
         | _ \<Rightarrow> get_float_loop sf data keys))"

definition get_float ::
  "(string \<Rightarrow> real option) \<Rightarrow> SceneEntity \<Rightarrow> string list \<Rightarrow> py_exc + real option" where
  "get_float sf entity keys = get_float_loop sf (model_dump entity) keys"

fun get_string_loop :: "(string \<times> jval) list \<Rightarrow> string list \<Rightarrow> string option" where
  "get_string_loop data [] = None"
| "get_string_loop data (key # keys) =
    (case map_of data key of
       None \<Rightarrow> get_string_loop data keys
     | Some val \<Rightarrow> (case val of JStr s \<Rightarrow> Some s | _ \<Rightarrow> get_string_loop data keys))"

definition get_string :: "SceneEntity \<Rightarrow> string list \<Rightarrow> string option" where
  "get_string entity keys = get_string_loop (model_dump entity) keys"

fun get_bool_loop :: "(string \<times> jval) list \<Rightarrow> string list \<Rightarrow> bool" where
  "get_bool_loop data [] = False"
| "get_bool_loop data (key # keys) =
    (case map_of data key of
       None \<Rightarrow> get_bool_loop data keys
     | Some val \<Rightarrow> (case val of JBool b \<Rightarrow> b | _ \<Rightarrow> get_bool_loop data keys))"

definition get_bool :: "SceneEntity \<Rightarrow> string list \<Rightarrow> bool" where
  "get_bool entity keys = get_bool_loop (model_dump entity) keys"

section \<open>Layer routing and colours (lines 440--444, 614--633)\<close>

text \<open>
  \<open>if config.flatten_to_layer:\<close> is a truth test: \<open>None\<close> and the empty string both fail it.
  \<open>a or b\<close> on strings is \<open>a\<close> unless \<open>a\<close> is empty.
\<close>

definition str_or :: "string \<Rightarrow> string \<Rightarrow> string" where
  "str_or a b = (if a \<noteq> [] then a else b)"

definition get_target_layer :: "string \<Rightarrow> DxfLayerConfig \<Rightarrow> string" where
  "get_target_layer entity_layer config =
    (let mapped = (case map_of (layer_mapping config) entity_layer of
                     None \<Rightarrow> entity_layer | Some v \<Rightarrow> v);
         routed = str_or mapped (default_layer config)
     in case flatten_to_layer config of
          None \<Rightarrow> routed
        | Some f \<Rightarrow> if f \<noteq> [] then f else routed)"

text \<open>
  \<open>str.upper()\<close> on the ASCII letters; a colour key of the table has no other letter.
  The Unicode case mapping of other characters is outside this model.
\<close>

definition upper_char :: "char \<Rightarrow> char" where
  "upper_char c =
    (case map_of (zip ''abcdefghijklmnopqrstuvwxyz'' ''ABCDEFGHIJKLMNOPQRSTUVWXYZ'') c of
       None \<Rightarrow> c | Some u \<Rightarrow> u)"

definition color_map :: "(string \<times> nat) list" where
  "color_map =
    [(''#FF0000'', 1), (''#FFFF00'', 2), (''#00FF00'', 3), (''#00FFFF'', 4),
     (''#0000FF'', 5), (''#FF00FF'', 6), (''#FFFFFF'', 7), (''#000000'', 0)]"

definition hex_to_aci :: "string \<Rightarrow> nat" where
  "hex_to_aci hex_color =
    (case map_of color_map (map upper_char hex_color) of None \<Rightarrow> 7 | Some n \<Rightarrow> n)"

section \<open>Entity type handlers (lines 450--521)\<close>

text \<open>
  A handler returns the modelspace it leaves (unchanged when it draws nothing) or the
  exception that escapes it. A point is a pair, which is always true in a truth test; a
  number is true unless it is zero; a string is true unless it is empty.
\<close>

definition export_line ::
  "(string \<Rightarrow> real option) \<Rightarrow> writer \<Rightarrow> Modelspace \<Rightarrow> SceneEntity \<Rightarrow> attribs \<Rightarrow> py_exc + Modelspace" where
  "export_line sf w msp entity atts =
    (case get_point sf entity [''start'', ''startPoint'', ''p1''] of
       Inl e \<Rightarrow> Inl e
     | Inr start \<Rightarrow>
        (case get_point sf entity [''end'', ''endPoint'', ''p2''] of
           Inl e \<Rightarrow> Inl e
         | Inr end' \<Rightarrow>
            (case start of
               None \<Rightarrow> Inr msp
             | Some s \<Rightarrow>
                (case end' of
                   None \<Rightarrow> Inr msp
                 | Some t \<Rightarrow> add_entity w msp (Line s t atts)))))"

definition export_lwpolyline ::
  "(string \<Rightarrow> real option) \<Rightarrow> writer \<Rightarrow> Modelspace \<Rightarrow> SceneEntity \<Rightarrow> attribs \<Rightarrow> py_exc + Modelspace" where
  "export_lwpolyline sf w msp entity atts =
    (case get_points sf entity [''points'', ''vertices'', ''polygon''] of
       Inl e \<Rightarrow> Inl e
     | Inr points \<Rightarrow>
        (case points of
           None \<Rightarrow> Inr msp
         | Some ps \<Rightarrow>
            if ps \<noteq> [] \<and> length ps \<ge> 2
            then (let is_closed = get_bool entity [''closed'', ''isClosed''];
                      is_closed = (if e_type entity = ''rectangle'' \<or> e_type entity = ''rect''
                                   then True else is_closed)
                  in add_entity w msp (LwPolyline ps is_closed atts))
            else Inr msp))"

definition export_circle ::
  "(string \<Rightarrow> real option) \<Rightarrow> writer \<Rightarrow> Modelspace \<Rightarrow> SceneEntity \<Rightarrow> attribs \<Rightarrow> py_exc + Modelspace" where
  "export_circle sf w msp entity atts =
    (case get_point sf entity [''center'', ''centerPoint''] of
       Inl e \<Rightarrow> Inl e
     | Inr center \<Rightarrow>
        (case get_float sf entity [''radius'', ''r''] of
           Inl e \<Rightarrow> Inl e
         | Inr radius \<Rightarrow>
            (case center of
               None \<Rightarrow> Inr msp
             | Some c \<Rightarrow>
                (case radius of
                   None \<Rightarrow> Inr msp
                 | Some r \<Rightarrow> if r \<noteq> 0 then add_entity w msp (Circle c r atts) else Inr msp))))"

definition export_arc ::
  "(string \<Rightarrow> real option) \<Rightarrow> writer \<Rightarrow> Modelspace \<Rightarrow> SceneEntity \<Rightarrow> attribs \<Rightarrow> py_exc + Modelspace" where
  "export_arc sf w msp entity atts =
    (case get_point sf entity [''center'', ''centerPoint''] of
       Inl e \<Rightarrow> Inl e
     | Inr center \<Rightarrow>
    (case get_float sf entity [''radius'', ''r''] of
       Inl e \<Rightarrow> Inl e
     | Inr radius \<Rightarrow>
    (case get_float sf entity [''startAngle'', ''start_angle''] of
       Inl e \<Rightarrow> Inl e
     | Inr start_angle \<Rightarrow>
    (case get_float sf entity [''endAngle'', ''end_angle''] of
       Inl e \<Rightarrow> Inl e
     | Inr end_angle \<Rightarrow>
        (case (center, radius, start_angle, end_angle) of
           (Some c, Some r, Some sa, Some ea) \<Rightarrow> add_entity w msp (Arc c r sa ea atts)
         | _ \<Rightarrow> Inr msp)))))"

definition export_text ::
  "(string \<Rightarrow> real option) \<Rightarrow> writer \<Rightarrow> Modelspace \<Rightarrow> SceneEntity \<Rightarrow> attribs \<Rightarrow> py_exc + Modelspace" where
  "export_text sf w msp entity atts =
    (case get_point sf entity [''insert'', ''position'', ''location''] of
       Inl e \<Rightarrow> Inl e
     | Inr insert' \<Rightarrow>
    (let text' = get_string entity [''text'', ''content'', ''value''] in
    (case get_float sf entity [''height'', ''fontSize''] of
       Inl e \<Rightarrow> Inl e
     | Inr h \<Rightarrow>
    (let height = (case h of None \<Rightarrow> 2.5 | Some x \<Rightarrow> if x \<noteq> 0 then x else 2.5) in
        (case insert' of
           None \<Rightarrow> Inr msp
         | Some ins \<Rightarrow>
            (case text' of
               None \<Rightarrow> Inr msp
             | Some txt \<Rightarrow>
                if txt \<noteq> []
                then (case get_float sf entity [''rotation'', ''angle''] of
                        Inl e \<Rightarrow> Inl e
                      | Inr r \<Rightarrow>
                         (let rotation = (case r of None \<Rightarrow> 0 | Some x \<Rightarrow> if x \<noteq> 0 then x else 0)
                          in add_entity w msp
                               (Text txt (atts\<lparr>a_height := Some height, a_rotation := Some rotation\<rparr>) ins)))
                else Inr msp))))))"

definition export_point ::
  "(string \<Rightarrow> real option) \<Rightarrow> writer \<Rightarrow> Modelspace \<Rightarrow> SceneEntity \<Rightarrow> attribs \<Rightarrow> py_exc + Modelspace" where
  "export_point sf w msp entity atts =
    (case get_point sf entity [''location'', ''position'', ''point''] of
       Inl e \<Rightarrow> Inl e
     | Inr location \<Rightarrow>
        (case location of
           None \<Rightarrow> Inr msp
         | Some l \<Rightarrow> add_entity w msp (Point l atts)))"

section \<open>Exporting one entity (lines 358--438)\<close>

definition quoted :: "string \<Rightarrow> string" where
  "quoted s = [CHR 0x27] @ s @ [CHR 0x27]"

text \<open>
  The \<open>try\<close> block around the dispatch: a handler that returns gives the success result, an
  exception gives the failed result with \<open>str(e)\<close>, the modelspace being as it was.
\<close>

definition after_handler ::
  "Modelspace \<Rightarrow> SceneEntity \<Rightarrow> string \<Rightarrow> py_exc + Modelspace \<Rightarrow> Modelspace \<times> DxfEntityExportResult" where
  "after_handler msp entity t r =
    (case r of
       Inr msp' \<Rightarrow>
         (msp', \<lparr>entity_id = e_id entity, success = True, dxf_type = Some t,
                 warnings = [], error = None\<rparr>)
     | Inl e \<Rightarrow>
         (msp, \<lparr>entity_id = e_id entity, success = False, dxf_type = Some t,
                warnings = [], error = Some (StrOf e)\<rparr>))"

text \<open>
  The common attributes: the target layer, and the colour index when the entity has a
  colour (\<open>if entity.color:\<close> fails for \<open>None\<close> and for the empty string).
\<close>

definition common_attribs :: "SceneEntity \<Rightarrow> DxfExportSettings \<Rightarrow> attribs" where
  "common_attribs entity settings =
    (let layer = get_target_layer (e_layer entity) (layers settings)
     in \<lparr>a_layer = layer,
         a_color = (case e_color entity of
                      None \<Rightarrow> None
                    | Some c \<Rightarrow> if c \<noteq> [] then Some (hex_to_aci c) else None),
         a_height = None, a_rotation = None\<rparr>)"

definition export_entity ::
  "(string \<Rightarrow> real option) \<Rightarrow> writer \<Rightarrow> Modelspace \<Rightarrow> SceneEntity \<Rightarrow> DxfExportSettings
     \<Rightarrow> Modelspace \<times> DxfEntityExportResult" where
  "export_entity sf w msp entity settings =
    (case mapping_get (e_type entity) of
       None \<Rightarrow>
         (msp, \<lparr>entity_id = e_id entity, success = False, dxf_type = None,
                warnings = [''Entity type '' @ quoted (e_type entity) @ '' is not exportable''],
                error = None\<rparr>)
     | Some t \<Rightarrow>
         if version settings = AC1009 \<and> t \<notin> set R12_SUPPORTED_TYPES
         then (msp, \<lparr>entity_id = e_id entity, success = False, dxf_type = Some t,
                     warnings = [''Entity type '' @ quoted t @ '' not supported in R12''],
                     error = Some (Msg ''R12 version does not support this entity type'')\<rparr>)
         else
           (let atts = common_attribs entity settings
            in if t = ''LINE'' then after_handler msp entity t (export_line sf w msp entity atts)
               else if t = ''LWPOLYLINE''
                 then after_handler msp entity t (export_lwpolyline sf w msp entity atts)
               else if t = ''CIRCLE''
                 then after_handler msp entity t (export_circle sf w msp entity atts)
               else if t = ''ARC'' then after_handler msp entity t (export_arc sf w msp entity atts)
               else if t = ''TEXT'' then after_handler msp entity t (export_text sf w msp entity atts)
               else if t = ''POINT''
                 then after_handler msp entity t (export_point sf w msp entity atts)
               else (msp, \<lparr>entity_id = e_id entity, success = False, dxf_type = Some t,
                           warnings = [''Export for '' @ quoted t @ '' not yet implemented''],
                           error = Some (Msg ''Entity type export not implemented'')\<rparr>)))"

text \<open>The result of the \<open>except\<close> branch, for an exception \<open>ex\<close> caught at a kind \<open>t\<close>.\<close>

abbreviation raised_result :: "SceneEntity \<Rightarrow> string \<Rightarrow> py_exc \<Rightarrow> DxfEntityExportResult" where
  "raised_result e t ex \<equiv>
     \<lparr>entity_id = e_id e, success = False, dxf_type = Some t, warnings = [],
      error = Some (StrOf ex)\<rparr>"

section \<open>Filtering (lines 332--356)\<close>

text \<open>
  \<open>if entity_ids:\<close> and \<open>if layer_names:\<close> are truth tests on an optional list: \<open>None\<close> and
  the empty list both skip the filter.
\<close>

definition filter_entities ::
  "SceneEntity list \<Rightarrow> string list option \<Rightarrow> string list option \<Rightarrow> DxfLayerConfig
     \<Rightarrow> SceneEntity list" where
  "filter_entities ents entity_ids layer_names config =
    (let filtered = ents;
         filtered = (case entity_ids of
                       None \<Rightarrow> filtered
                     | Some ids \<Rightarrow> if ids \<noteq> [] then filter (\<lambda>e. e_id e \<in> set ids) filtered
                                   else filtered);
         filtered = (case layer_names of
                       None \<Rightarrow> filtered
                     | Some lns \<Rightarrow> if lns \<noteq> [] then filter (\<lambda>e. e_layer e \<in> set lns) filtered
                                   else filtered);
         filtered = (if visible_only config then filter (\<lambda>e. e_visible e) filtered
                     else filtered)
     in filtered)"

section \<open>Exporting a scene (lines 126--209)\<close>

text \<open>
  The state of the export loop: the modelspace, the per-entity results, the three counters
  and the collected warnings.
\<close>

record export_acc =
  acc_msp :: Modelspace
  acc_results :: "DxfEntityExportResult list"
  exported_count :: nat
  skipped_count :: nat
  failed_count :: nat
  acc_warnings :: "string list"

definition export_step ::
  "(string \<Rightarrow> real option) \<Rightarrow> writer \<Rightarrow> DxfExportSettings \<Rightarrow> export_acc \<Rightarrow> SceneEntity \<Rightarrow> export_acc" where
  "export_step sf w settings acc entity =
    (let (msp', result) = export_entity sf w (acc_msp acc) entity settings;
         acc = acc\<lparr>acc_msp := msp', acc_results := acc_results acc @ [result]\<rparr>;
         acc = (if success result then acc\<lparr>exported_count := exported_count acc + 1\<rparr>
                else if dxf_type result = None then acc\<lparr>skipped_count := skipped_count acc + 1\<rparr>
                else acc\<lparr>failed_count := failed_count acc + 1\<rparr>)
     in acc\<lparr>acc_warnings := acc_warnings acc @ warnings result\<rparr>)"

fun export_loop ::
  "(string \<Rightarrow> real option) \<Rightarrow> writer \<Rightarrow> DxfExportSettings \<Rightarrow> export_acc \<Rightarrow> SceneEntity list \<Rightarrow> export_acc" where
  "export_loop sf w settings acc [] = acc"
| "export_loop sf w settings acc (entity # rest) =
     export_loop sf w settings (export_step sf w settings acc entity) rest"

text \<open>
  Of the response, the status, the counts, the per-entity results and the warnings are
  computed by the service; \<open>document\<close> is the modelspace that the writer then serialises
  into the \<open>data\<close> field. The header, the layer table, the file name and the encoding are
  the writer's and the transport's business.
\<close>

record DxfExportResponse =
  status :: DxfExportStatus
  document :: Modelspace
  stats :: ExportStats
  entity_results :: "DxfEntityExportResult list"
  r_warnings :: "string list"

definition export_scene ::
  "(string \<Rightarrow> real option) \<Rightarrow> writer \<Rightarrow> SceneModel \<Rightarrow> DxfExportSettings
     \<Rightarrow> string list option \<Rightarrow> string list option \<Rightarrow> DxfExportResponse" where
  "export_scene sf w scene settings entity_ids layer_names =
    (let entities_to_export =
           filter_entities (entities scene) entity_ids layer_names (layers settings);
         acc = export_loop sf w settings
                 \<lparr>acc_msp = [], acc_results = [], exported_count = 0, skipped_count = 0,
                  failed_count = 0, acc_warnings = []\<rparr>
                 entities_to_export;
         status = (if failed_count acc > 0
                   then (if exported_count acc > 0 then PARTIAL else ERROR)
                   else SUCCESS)
     in \<lparr>status = status,
         document = acc_msp acc,
         stats = \<lparr>total_entities = length (entities scene),
                   exported_entities = exported_count acc,
                   skipped_entities = skipped_count acc,
                   failed_entities = failed_count acc\<rparr>,
         entity_results = acc_results acc,
         r_warnings = acc_warnings acc\<rparr>)"

section \<open>Validation (lines 211--262, 527--574)\<close>

definition validate_entity :: "SceneEntity \<Rightarrow> DxfVersion \<Rightarrow> DxfEntityValidationResult" where
  "validate_entity entity tv =
    (case mapping_get (e_type entity) of
       None \<Rightarrow>
         \<lparr>v_entity_id = e_id entity, v_entity_type = e_type entity, exportable = False,
          issues = [\<lparr>severity = SevWARNING, code = ''NOT_EXPORTABLE'',
                     message = ''Entity type '' @ quoted (e_type entity)
                                 @ '' cannot be exported to DXF'',
                     suggestion = Some ''This entity will be skipped during export''\<rparr>]\<rparr>
     | Some t \<Rightarrow>
         if tv = AC1009 \<and> t \<notin> set R12_SUPPORTED_TYPES
         then \<lparr>v_entity_id = e_id entity, v_entity_type = e_type entity, exportable = False,
               issues = [\<lparr>severity = SevERROR, code = ''VERSION_INCOMPATIBLE'',
                          message = ''Entity type '' @ quoted t @ '' not supported in R12'',
                          suggestion =
                            Some ''Use R2000 (AC1015) or later for full entity support''\<rparr>]\<rparr>
         else \<lparr>v_entity_id = e_id entity, v_entity_type = e_type entity, exportable = True,
               issues = []\<rparr>)"

record validate_acc =
  val_results :: "DxfEntityValidationResult list"
  exportable_count :: nat
  error_count :: nat
  warning_count :: nat
  info_count :: nat

fun count_issues :: "validate_acc \<Rightarrow> ValidationIssue list \<Rightarrow> validate_acc" where
  "count_issues acc [] = acc"
| "count_issues acc (issue # rest) =
     count_issues
       (if severity issue = SevERROR then acc\<lparr>error_count := error_count acc + 1\<rparr>
        else if severity issue = SevWARNING then acc\<lparr>warning_count := warning_count acc + 1\<rparr>
        else acc\<lparr>info_count := info_count acc + 1\<rparr>)
       rest"

fun validate_loop :: "DxfVersion \<Rightarrow> validate_acc \<Rightarrow> SceneEntity list \<Rightarrow> validate_acc" where
  "validate_loop tv acc [] = acc"
| "validate_loop tv acc (entity # rest) =
    (let result = validate_entity entity tv;
         acc = acc\<lparr>val_results := val_results acc @ [result]\<rparr>;
         acc = (if exportable result then acc\<lparr>exportable_count := exportable_count acc + 1\<rparr>
                else acc)
     in validate_loop tv (count_issues acc (issues result)) rest)"

definition validate_scene :: "SceneModel \<Rightarrow> DxfVersion \<Rightarrow> DxfExportValidationResponse" where
  "validate_scene scene tv =
    (let acc = validate_loop tv
                 \<lparr>val_results = [], exportable_count = 0, error_count = 0,
                  warning_count = 0, info_count = 0\<rparr>
                 (entities scene);
         valid = (error_count acc = 0)
     in \<lparr>valid = valid,
         target_version = tv,
         v_total_entities = length (entities scene),
         exportable_entities = exportable_count acc,
         non_exportable_entities = length (entities scene) - exportable_count acc,
         v_entity_results = val_results acc,
         issue_summary = \<lparr>errors = error_count acc, summary_warnings = warning_count acc,
                           info = info_count acc\<rparr>\<rparr>)"

section \<open>Alias resolution as the specification words it\<close>

text \<open>
  The specification's contract for the extractor: of an ordered list of aliases, the first
  one whose value exists and parses into the requested shape. \<open>first_parsing\<close> is that
  sentence, for a shape given as a partial function on values. The shapes are what the
  four extractors accept before any coercion: the two raw coordinates of a point (a
  mapping with x and y in either case, or a sequence of at least two items), the non-empty
  list of raw points of a list, a value of a numeric type, a string. \<open>coerced\<close> applies
  \<open>float()\<close> to what was found, and \<open>is_number\<close> says when \<open>float()\<close> cannot fail.
\<close>

definition first_parsing :: "(jval \<Rightarrow> 'a option) \<Rightarrow> (string \<times> jval) list \<Rightarrow> string list \<Rightarrow> 'a option" where
  "first_parsing shape data keys =
    (case List.map_filter (\<lambda>k. case map_of data k of None \<Rightarrow> None | Some v \<Rightarrow> shape v) keys of
       [] \<Rightarrow> None
     | r # _ \<Rightarrow> Some r)"

definition point_shape :: "jval \<Rightarrow> (jval \<times> jval) option" where
  "point_shape v =
    (case v of
       JDict d \<Rightarrow>
         (let x = dict_get d ''x'' (dict_get d ''X'' JNone);
              y = dict_get d ''y'' (dict_get d ''Y'' JNone)
          in if x \<noteq> JNone \<and> y \<noteq> JNone then Some (x, y) else None)
     | JList l \<Rightarrow> if length l \<ge> 2 then Some (l ! 0, l ! 1) else None
     | JTuple l \<Rightarrow> if length l \<ge> 2 then Some (l ! 0, l ! 1) else None
     | _ \<Rightarrow> None)"

definition points_shape :: "jval \<Rightarrow> (jval \<times> jval) list option" where
  "points_shape v =
    (case v of
       JList l \<Rightarrow> (let raw = List.map_filter point_shape l in if raw \<noteq> [] then Some raw else None)
     | _ \<Rightarrow> None)"

definition number_shape :: "jval \<Rightarrow> jval option" where
  "number_shape v =
    (case v of JBool b \<Rightarrow> Some v | JInt i \<Rightarrow> Some v | JFloat r \<Rightarrow> Some v | _ \<Rightarrow> None)"

definition string_shape :: "jval \<Rightarrow> string option" where
  "string_shape v = (case v of JStr s \<Rightarrow> Some s | _ \<Rightarrow> None)"

fun coerce_points :: "(string \<Rightarrow> real option) \<Rightarrow> (jval \<times> jval) list \<Rightarrow> py_exc + point list" where
  "coerce_points sf [] = Inr []"
| "coerce_points sf ((x, y) # rest) =
    (case float_pair sf x y of
       Inl e \<Rightarrow> Inl e
     | Inr p \<Rightarrow> (case coerce_points sf rest of Inl e \<Rightarrow> Inl e | Inr ps \<Rightarrow> Inr (p # ps)))"

definition coerced :: "('r \<Rightarrow> py_exc + 'a) \<Rightarrow> 'r option \<Rightarrow> py_exc + 'a option" where
  "coerced f r =
    (case r of
       None \<Rightarrow> Inr None
     | Some raw \<Rightarrow> (case f raw of Inl e \<Rightarrow> Inl e | Inr a \<Rightarrow> Inr (Some a)))"

definition is_number :: "jval \<Rightarrow> bool" where
  "is_number v =
    (case v of JBool b \<Rightarrow> True | JFloat r \<Rightarrow> True | JInt i \<Rightarrow> \<bar>i\<bar> < float_max_int | _ \<Rightarrow> False)"

section \<open>The layer rule as the specification words it\<close>

text \<open>
  The specification's sentence, literally: the flatten target when one is configured;
  otherwise the mapped name when the layer is a key of the mapping; otherwise the declared
  name unless it is empty, then the default. It is compared below with
  \<open>get_target_layer\<close>.
\<close>

definition spec_target_layer :: "string \<Rightarrow> DxfLayerConfig \<Rightarrow> string" where
  "spec_target_layer entity_layer config =
    (case flatten_to_layer config of
       Some f \<Rightarrow> f
     | None \<Rightarrow>
        (case map_of (layer_mapping config) entity_layer of
           Some m \<Rightarrow> m
         | None \<Rightarrow> if entity_layer \<noteq> [] then entity_layer else default_layer config))"

section \<open>Sample inputs\<close>

text \<open>
  Small scenes in the style of \<open>tests/conftest.py\<close>, used to run the definitions on
  concrete inputs. \<open>no_str\<close> is a string parser that rejects every string and
  \<open>accept_all\<close> a writer that accepts every primitive.
\<close>

definition no_str :: "string \<Rightarrow> real option" where
  "no_str s = None"

definition accept_all :: writer where
  "accept_all p = None"

definition plain_layers :: DxfLayerConfig where
  "plain_layers = \<lparr>visible_only = True, include_locked = False, flatten_to_layer = None,
     layer_mapping = [], default_layer = ''0''\<rparr>"

definition line_entity :: SceneEntity where
  "line_entity = \<lparr>e_id = ''line-001'', e_type = ''line'', e_layer = ''0'', e_color = None,
     e_visible = True,
     e_extra = [(''start'', JDict [(''x'', JInt 0), (''y'', JInt 0)]),
                (''end'', JDict [(''x'', JInt 100), (''y'', JInt 100)])]\<rparr>"

definition hidden_line_entity :: SceneEntity where
  "hidden_line_entity = line_entity\<lparr>e_id := ''line-002'', e_visible := False\<rparr>"

definition spline_entity :: SceneEntity where
  "spline_entity = \<lparr>e_id = ''spline-001'', e_type = ''spline'', e_layer = ''0'',
     e_color = None, e_visible = True, e_extra = []\<rparr>"

definition measurement_entity :: SceneEntity where
  "measurement_entity = \<lparr>e_id = ''measurement-001'', e_type = ''angle-measurement'',
     e_layer = ''0'', e_color = None, e_visible = True, e_extra = []\<rparr>"

definition zero_circle_entity :: SceneEntity where
  "zero_circle_entity = \<lparr>e_id = ''circle-001'', e_type = ''circle'', e_layer = ''0'',
     e_color = None, e_visible = True,
     e_extra = [(''center'', JDict [(''x'', JInt 50), (''y'', JInt 50)]), (''radius'', JInt 0)]\<rparr>"

definition malformed_sequence_entity :: SceneEntity where
  "malformed_sequence_entity = \<lparr>e_id = ''line-004'', e_type = ''line'', e_layer = ''0'',
     e_color = None, e_visible = True,
     e_extra = [(''start'', JList [JNone, JInt 0]),
                (''startPoint'', JDict [(''x'', JInt 1), (''y'', JInt 2)]),
                (''end'', JDict [(''x'', JInt 3), (''y'', JInt 4)])]\<rparr>"

definition malformed_mapping_entity :: SceneEntity where
  "malformed_mapping_entity = \<lparr>e_id = ''circle-002'', e_type = ''circle'', e_layer = ''0'',
     e_color = None, e_visible = True,
     e_extra = [(''center'', JDict [(''x'', JList []), (''y'', JInt 0)]), (''radius'', JInt 5)]\<rparr>"

definition polyline_entity :: SceneEntity where
  "polyline_entity = \<lparr>e_id = ''poly-001'', e_type = ''polyline'', e_layer = ''0'',
     e_color = None, e_visible = True,
     e_extra = [(''points'', JList [JDict [(''x'', JInt 0), (''y'', JInt 0)],
                                    JDict [(''x'', JInt 10), (''y'', JInt 0)]])]\<rparr>"

definition rect_entity :: SceneEntity where
  "rect_entity = \<lparr>e_id = ''rect-001'', e_type = ''rectangle'', e_layer = ''Layer1'',
     e_color = Some ''#ff0000'', e_visible = True,
     e_extra = [(''points'', JList [JDict [(''x'', JInt 0), (''y'', JInt 0)],
                                    JDict [(''x'', JInt 100), (''y'', JInt 0)],
                                    JDict [(''x'', JInt 100), (''y'', JInt 50)],
                                    JDict [(''x'', JInt 0), (''y'', JInt 50)]]),
                (''closed'', JBool False)]\<rparr>"

definition bare_line_entity :: SceneEntity where
  "bare_line_entity = \<lparr>e_id = ''line-003'', e_type = ''line'', e_layer = ''0'',
     e_color = None, e_visible = True, e_extra = []\<rparr>"

definition open_lwpolyline_entity :: SceneEntity where
  "open_lwpolyline_entity = \<lparr>e_id = ''lw-001'', e_type = ''lwpolyline'', e_layer = ''0'',
     e_color = None, e_visible = True,
     e_extra = [(''points'', JList [JList [JInt 0, JInt 0], JList [JInt 10, JInt 0]]),
                (''closed'', JBool False), (''isClosed'', JBool True)]\<rparr>"

definition closed_lwpolyline_entity :: SceneEntity where
  "closed_lwpolyline_entity = \<lparr>e_id = ''lw-002'', e_type = ''lwpolyline'', e_layer = ''0'',
     e_color = None, e_visible = True,
     e_extra = [(''points'', JList [JList [JInt 0, JInt 0], JList [JInt 10, JInt 0]]),
                (''closed'', JStr ''yes''), (''isClosed'', JBool True)]\<rparr>"

lemmas sample_defs =
  no_str_def accept_all_def plain_layers_def line_entity_def hidden_line_entity_def
  spline_entity_def measurement_entity_def

lemmas more_defs = malformed_sequence_entity_def malformed_mapping_entity_def polyline_entity_def
  rect_entity_def bare_line_entity_def

lemmas eval_defs =
  export_scene_def filter_entities_def export_step_def export_entity_def after_handler_def
  common_attribs_def get_target_layer_def str_or_def hex_to_aci_def color_map_def upper_char_def
  export_line_def export_lwpolyline_def export_circle_def export_arc_def export_text_def
  export_point_def add_entity_def get_point_def get_points_def get_float_def get_string_def
  get_bool_def model_dump_def float_pair_def py_float_def dict_get_def float_max_int_def
  mapping_get_def ENTITY_TYPE_MAPPING_def R12_SUPPORTED_TYPES_def quoted_def Let_def

section \<open>The export loop keeps its counts\<close>

lemma export_step_counts:
  "exported_count (export_step sf w s acc e) + skipped_count (export_step sf w s acc e)
     + failed_count (export_step sf w s acc e)
   = exported_count acc + skipped_count acc + failed_count acc + 1"
  by (simp add: export_step_def Let_def split: prod.splits)

lemma export_step_results:
  "length (acc_results (export_step sf w s acc e)) = length (acc_results acc) + 1"
  by (simp add: export_step_def Let_def split: prod.splits)

lemma export_loop_counts:
  "exported_count (export_loop sf w s acc es) + skipped_count (export_loop sf w s acc es)
     + failed_count (export_loop sf w s acc es)
   = exported_count acc + skipped_count acc + failed_count acc + length es"
proof (induction es arbitrary: acc)
  case Nil
  show ?case by simp
next
  case (Cons e es)
  show ?case
    using Cons.IH [of "export_step sf w s acc e"] export_step_counts [of sf w s acc e]
    by simp
qed

lemma export_loop_results:
  "length (acc_results (export_loop sf w s acc es)) = length (acc_results acc) + length es"
proof (induction es arbitrary: acc)
  case Nil
  show ?case by simp
next
  case (Cons e es)
  show ?case
    using Cons.IH [of "export_step sf w s acc e"] export_step_results [of sf w s acc e]
    by simp
qed

lemma filter_entities_filter:
  "filter_entities ents ids lns cfg =
     filter (\<lambda>e. e_visible e \<or> \<not> visible_only cfg)
       (filter (\<lambda>e. case lns of None \<Rightarrow> True | Some l \<Rightarrow> l = [] \<or> e_layer e \<in> set l)
          (filter (\<lambda>e. case ids of None \<Rightarrow> True | Some i \<Rightarrow> i = [] \<or> e_id e \<in> set i) ents))"
  by (simp add: filter_entities_def Let_def split: option.splits)

lemma length_filter_entities: "length (filter_entities ents ids lns cfg) \<le> length ents"
  unfolding filter_entities_filter
  by (meson le_trans length_filter_le)

text \<open>
  Claim C9. For every export invocation the returned stats satisfy
  exported + skipped + failed \<open>\<le>\<close> total, where total is the number of entities of the scene
  before filtering; the sum is the number of filtered entities (each of them gets exactly
  one result and is counted once).
\<close>

theorem export_stats_partition:
  "exported_entities (stats (export_scene sf w scene settings ids lns))
     + skipped_entities (stats (export_scene sf w scene settings ids lns))
     + failed_entities (stats (export_scene sf w scene settings ids lns))
   = length (filter_entities (entities scene) ids lns (layers settings))
   \<and> exported_entities (stats (export_scene sf w scene settings ids lns))
     + skipped_entities (stats (export_scene sf w scene settings ids lns))
     + failed_entities (stats (export_scene sf w scene settings ids lns))
   \<le> total_entities (stats (export_scene sf w scene settings ids lns))
   \<and> total_entities (stats (export_scene sf w scene settings ids lns)) = length (entities scene)
   \<and> length (entity_results (export_scene sf w scene settings ids lns))
   = length (filter_entities (entities scene) ids lns (layers settings))"
  using export_loop_counts
      [of sf w settings _ "filter_entities (entities scene) ids lns (layers settings)"]
    export_loop_results
      [of sf w settings _ "filter_entities (entities scene) ids lns (layers settings)"]
    length_filter_entities [of "entities scene" ids lns "layers settings"]
  by (simp add: export_scene_def Let_def)

theorem export_stats_partition_witness:
  "exported_entities (stats (export_scene no_str accept_all
       \<lparr>entities = [measurement_entity, hidden_line_entity, line_entity]\<rparr>
       \<lparr>version = AC1015, layers = plain_layers\<rparr> None None))
     + skipped_entities (stats (export_scene no_str accept_all
       \<lparr>entities = [measurement_entity, hidden_line_entity, line_entity]\<rparr>
       \<lparr>version = AC1015, layers = plain_layers\<rparr> None None))
     + failed_entities (stats (export_scene no_str accept_all
       \<lparr>entities = [measurement_entity, hidden_line_entity, line_entity]\<rparr>
       \<lparr>version = AC1015, layers = plain_layers\<rparr> None None))
   = 2
   \<and> total_entities (stats (export_scene no_str accept_all
       \<lparr>entities = [measurement_entity, hidden_line_entity, line_entity]\<rparr>
       \<lparr>version = AC1015, layers = plain_layers\<rparr> None None)) = 3"
  using export_stats_partition [of no_str accept_all
      "\<lparr>entities = [measurement_entity, hidden_line_entity, line_entity]\<rparr>"
      "\<lparr>version = AC1015, layers = plain_layers\<rparr>" None None]
  by (simp add: filter_entities_def sample_defs)

text \<open>
  Claim C2. For every export invocation the overall status is a function of the counts:
  ERROR if failed > 0 and exported = 0, PARTIAL if failed > 0 and exported > 0, SUCCESS
  otherwise; with no failed entity the status is SUCCESS whatever the number of skipped
  ones.
\<close>

theorem export_status_of_counts:
  "status (export_scene sf w scene settings ids lns) =
     (if failed_entities (stats (export_scene sf w scene settings ids lns)) > 0
         \<and> exported_entities (stats (export_scene sf w scene settings ids lns)) = 0 then ERROR
      else if failed_entities (stats (export_scene sf w scene settings ids lns)) > 0
         \<and> exported_entities (stats (export_scene sf w scene settings ids lns)) > 0 then PARTIAL
      else SUCCESS)
   \<and> (failed_entities (stats (export_scene sf w scene settings ids lns)) = 0
        \<longrightarrow> status (export_scene sf w scene settings ids lns) = SUCCESS)"
  by (simp add: export_scene_def Let_def)

lemma sample_stats_partial:
  "stats (export_scene no_str accept_all \<lparr>entities = [spline_entity, line_entity]\<rparr>
      \<lparr>version = AC1009, layers = plain_layers\<rparr> None None)
   = \<lparr>total_entities = 2, exported_entities = 1, skipped_entities = 0, failed_entities = 1\<rparr>"
  by (simp add: eval_defs sample_defs)

lemma sample_stats_skipped:
  "stats (export_scene no_str accept_all \<lparr>entities = [measurement_entity, line_entity]\<rparr>
      \<lparr>version = AC1015, layers = plain_layers\<rparr> None None)
   = \<lparr>total_entities = 2, exported_entities = 1, skipped_entities = 1, failed_entities = 0\<rparr>"
  by (simp add: eval_defs sample_defs)

theorem export_status_of_counts_witness:
  "status (export_scene no_str accept_all \<lparr>entities = [spline_entity, line_entity]\<rparr>
      \<lparr>version = AC1009, layers = plain_layers\<rparr> None None) = PARTIAL
   \<and> status (export_scene no_str accept_all \<lparr>entities = [measurement_entity, line_entity]\<rparr>
      \<lparr>version = AC1015, layers = plain_layers\<rparr> None None) = SUCCESS"
  using export_status_of_counts [of no_str accept_all "\<lparr>entities = [spline_entity, line_entity]\<rparr>"
      "\<lparr>version = AC1009, layers = plain_layers\<rparr>" None None]
    export_status_of_counts [of no_str accept_all
      "\<lparr>entities = [measurement_entity, line_entity]\<rparr>"
      "\<lparr>version = AC1015, layers = plain_layers\<rparr>" None None]
  by (simp add: sample_stats_partial sample_stats_skipped)

section \<open>Layer routing\<close>

text \<open>
  The sentence of claim C6 fails where the mapping sends the layer to the empty name:
  \<open>a or b\<close> then yields the default layer, not the mapped name.
\<close>

theorem target_layer_counterexample:
  "get_target_layer ''A'' \<lparr>visible_only = True, include_locked = False, flatten_to_layer = None,
       layer_mapping = [(''A'', [])], default_layer = ''0''\<rparr> = ''0''
   \<and> spec_target_layer ''A'' \<lparr>visible_only = True, include_locked = False,
       flatten_to_layer = None, layer_mapping = [(''A'', [])], default_layer = ''0''\<rparr> = []"
  by (simp add: get_target_layer_def spec_target_layer_def str_or_def)

text \<open>
  Claim C6, amended. A non-empty flatten target is returned whatever the mapping and the
  default are. Without one (absent or empty), the result is the mapped name when the
  entity's layer is a key of the mapping and the mapped name is not empty, the declared
  name when the layer is not a key and the name is not empty, and the default layer name
  in the two empty cases.
\<close>

theorem target_layer_resolution:
  "(flatten_to_layer cfg = Some f \<and> f \<noteq> [] \<longrightarrow> get_target_layer l cfg = f)
   \<and> (flatten_to_layer cfg = None \<or> flatten_to_layer cfg = Some [] \<longrightarrow>
        get_target_layer l cfg =
          (case map_of (layer_mapping cfg) l of
             Some m \<Rightarrow> if m \<noteq> [] then m else default_layer cfg
           | None \<Rightarrow> if l \<noteq> [] then l else default_layer cfg))"
  by (auto simp add: get_target_layer_def str_or_def Let_def split: option.splits)

theorem target_layer_resolution_witness:
  "get_target_layer ''Walls'' \<lparr>visible_only = True, include_locked = False,
       flatten_to_layer = Some ''EXPORT'', layer_mapping = [(''Walls'', ''A-WALL'')],
       default_layer = ''0''\<rparr> = ''EXPORT''
   \<and> get_target_layer ''Walls'' \<lparr>visible_only = True, include_locked = False,
       flatten_to_layer = None, layer_mapping = [(''Walls'', ''A-WALL'')],
       default_layer = ''0''\<rparr> = ''A-WALL''
   \<and> get_target_layer [] \<lparr>visible_only = True, include_locked = False,
       flatten_to_layer = None, layer_mapping = [(''Walls'', ''A-WALL'')],
       default_layer = ''0''\<rparr> = ''0''"
  using target_layer_resolution [of "\<lparr>visible_only = True, include_locked = False,
       flatten_to_layer = Some ''EXPORT'', layer_mapping = [(''Walls'', ''A-WALL'')],
       default_layer = ''0''\<rparr>" "''EXPORT''" "''Walls''"]
    target_layer_resolution [of "\<lparr>visible_only = True, include_locked = False,
       flatten_to_layer = None, layer_mapping = [(''Walls'', ''A-WALL'')],
       default_layer = ''0''\<rparr>" "[]" "''Walls''"]
    target_layer_resolution [of "\<lparr>visible_only = True, include_locked = False,
       flatten_to_layer = None, layer_mapping = [(''Walls'', ''A-WALL'')],
       default_layer = ''0''\<rparr>" "[]" "[]"]
  by simp

section \<open>Filtering\<close>

text \<open>
  The sentence of claim C7 fails for the empty list of ids: the truth test skips the
  filter and every entity stays, where the intersection with the empty set is empty.
\<close>

theorem filter_empty_ids_counterexample:
  "filter_entities [line_entity] (Some []) None plain_layers = [line_entity]
   \<and> filter (\<lambda>e. e_id e \<in> set []) [line_entity] = []"
  by (simp add: filter_entities_def sample_defs)

text \<open>
  Claim C7, amended. For every scene and every non-empty list of ids, the entities
  considered are those whose id is in the list, then those of them whose layer is in a
  non-empty list of layer names, then the visible ones of them when visible-only is set;
  an empty list of ids filters nothing, as an absent one. The result is always a
  subsequence of the scene's entities: the order is kept.
\<close>

theorem filter_entities_by_ids:
  "(ids \<noteq> [] \<longrightarrow>
      filter_entities ents (Some ids) lns cfg =
        filter (\<lambda>e. e_visible e \<or> \<not> visible_only cfg)
          (filter (\<lambda>e. case lns of None \<Rightarrow> True | Some l \<Rightarrow> l = [] \<or> e_layer e \<in> set l)
             (filter (\<lambda>e. e_id e \<in> set ids) ents)))
   \<and> filter_entities ents (Some []) lns cfg = filter_entities ents None lns cfg
   \<and> filter_entities ents None lns cfg =
        filter (\<lambda>e. e_visible e \<or> \<not> visible_only cfg)
          (filter (\<lambda>e. case lns of None \<Rightarrow> True | Some l \<Rightarrow> l = [] \<or> e_layer e \<in> set l) ents)
   \<and> subseq (filter_entities ents any_ids lns cfg) ents"
proof -
  have "subseq (filter_entities ents any_ids lns cfg) ents"
    unfolding filter_entities_filter
    by (meson subseq_filter_left subseq_order.trans)
  then show ?thesis
    by (simp add: filter_entities_filter)
qed

theorem filter_entities_by_ids_witness:
  "filter_entities [measurement_entity, hidden_line_entity, line_entity, spline_entity]
      (Some [''spline-001'', ''line-002'', ''measurement-001'']) None plain_layers
   = [measurement_entity, spline_entity]"
  using filter_entities_by_ids [of "[''spline-001'', ''line-002'', ''measurement-001'']"
      "[measurement_entity, hidden_line_entity, line_entity, spline_entity]" None plain_layers None]
  by (simp add: sample_defs)


section \<open>Validation\<close>

lemma count_issues_fields:
  "val_results (count_issues acc is) = val_results acc
   \<and> exportable_count (count_issues acc is) = exportable_count acc
   \<and> error_count (count_issues acc is)
       = error_count acc + length (filter (\<lambda>i. severity i = SevERROR) is)"
  by (induction "is" arbitrary: acc) auto

lemma validate_loop_results:
  "val_results (validate_loop tv acc es)
     = val_results acc @ map (\<lambda>e. validate_entity e tv) es"
proof (induction es arbitrary: acc)
  case Nil
  show ?case by simp
next
  case (Cons e es)
  show ?case
    by (simp add: Cons.IH Let_def count_issues_fields)
qed

lemma validate_loop_errors:
  "error_count (validate_loop tv acc es)
     = error_count acc
       + length (filter (\<lambda>i. severity i = SevERROR)
                   (concat (map (\<lambda>e. issues (validate_entity e tv)) es)))"
proof (induction es arbitrary: acc)
  case Nil
  show ?case by simp
next
  case (Cons e es)
  show ?case
    by (simp add: Cons.IH Let_def count_issues_fields)
qed

text \<open>
  Claim C8. For every scene and target version, validation gives each entity whose kind
  is unknown to the registry, or mapped to none, exportable = false and exactly one
  issue, of severity WARNING and code NOT\_EXPORTABLE; the per-entity results are those
  of the entities in scene order; and the scene is valid if and only if the number of
  issues of severity ERROR over all entity results is zero, which is also the error
  count of the summary. Warnings and info are not counted there.
\<close>

theorem validation_unknown_kind:
  "(map_of ENTITY_TYPE_MAPPING (e_type e) = None \<or> map_of ENTITY_TYPE_MAPPING (e_type e) = Some None
      \<longrightarrow> exportable (validate_entity e tv) = False
        \<and> map (\<lambda>i. (severity i, code i)) (issues (validate_entity e tv))
            = [(SevWARNING, ''NOT_EXPORTABLE'')])
   \<and> v_entity_results (validate_scene scene tv) = map (\<lambda>e. validate_entity e tv) (entities scene)
   \<and> valid (validate_scene scene tv)
       = (length (filter (\<lambda>i. severity i = SevERROR)
                    (concat (map issues (v_entity_results (validate_scene scene tv))))) = 0)
   \<and> errors (issue_summary (validate_scene scene tv))
       = length (filter (\<lambda>i. severity i = SevERROR)
                    (concat (map issues (v_entity_results (validate_scene scene tv)))))"
proof -
  have unknown: "map_of ENTITY_TYPE_MAPPING (e_type e) = None
      \<or> map_of ENTITY_TYPE_MAPPING (e_type e) = Some None
      \<Longrightarrow> mapping_get (e_type e) = None"
    by (auto simp add: mapping_get_def)
  have res: "v_entity_results (validate_scene scene tv)
      = map (\<lambda>e. validate_entity e tv) (entities scene)"
    by (simp add: validate_scene_def Let_def validate_loop_results)
  have err: "errors (issue_summary (validate_scene scene tv))
      = length (filter (\<lambda>i. severity i = SevERROR)
                  (concat (map (\<lambda>e. issues (validate_entity e tv)) (entities scene))))"
    by (simp add: validate_scene_def Let_def validate_loop_errors)
  have val: "valid (validate_scene scene tv) = (errors (issue_summary (validate_scene scene tv)) = 0)"
    by (simp add: validate_scene_def Let_def)
  have comp: "map issues (map (\<lambda>e. validate_entity e tv) (entities scene))
      = map (\<lambda>e. issues (validate_entity e tv)) (entities scene)"
    by simp
  have first: "map_of ENTITY_TYPE_MAPPING (e_type e) = None
      \<or> map_of ENTITY_TYPE_MAPPING (e_type e) = Some None
      \<longrightarrow> exportable (validate_entity e tv) = False
        \<and> map (\<lambda>i. (severity i, code i)) (issues (validate_entity e tv))
            = [(SevWARNING, ''NOT_EXPORTABLE'')]"
    using unknown by (auto simp add: validate_entity_def)
  have rest: "valid (validate_scene scene tv)
       = (length (filter (\<lambda>i. severity i = SevERROR)
                    (concat (map issues (v_entity_results (validate_scene scene tv))))) = 0)
   \<and> errors (issue_summary (validate_scene scene tv))
       = length (filter (\<lambda>i. severity i = SevERROR)
                    (concat (map issues (v_entity_results (validate_scene scene tv)))))"
    unfolding val err res comp by simp
  show ?thesis
    using first res rest by blast
qed

theorem validation_unknown_kind_witness:
  "exportable (validate_entity measurement_entity AC1015) = False
   \<and> map (\<lambda>i. (severity i, code i)) (issues (validate_entity measurement_entity AC1015))
       = [(SevWARNING, ''NOT_EXPORTABLE'')]
   \<and> valid (validate_scene \<lparr>entities = [measurement_entity]\<rparr> AC1015) = True
   \<and> valid (validate_scene \<lparr>entities = [spline_entity]\<rparr> AC1009) = False"
  using validation_unknown_kind [of measurement_entity AC1015 "\<lparr>entities = [measurement_entity]\<rparr>"]
    validation_unknown_kind [of measurement_entity AC1009 "\<lparr>entities = [spline_entity]\<rparr>"]
  by (simp add: sample_defs ENTITY_TYPE_MAPPING_def validate_entity_def mapping_get_def
      R12_SUPPORTED_TYPES_def)


section \<open>Version compatibility\<close>

lemma after_handler_error:
  "error (snd (after_handler msp e t r)) \<noteq> Some (Msg m)"
  by (simp add: after_handler_def split: sum.splits)

lemma export_entity_denied:
  assumes "mapping_get (e_type e) = Some t"
    and "version s = AC1009" and "t \<notin> set R12_SUPPORTED_TYPES"
  shows "export_entity sf w msp e s =
     (msp, \<lparr>entity_id = e_id e, success = False, dxf_type = Some t,
            warnings = [''Entity type '' @ quoted t @ '' not supported in R12''],
            error = Some (Msg ''R12 version does not support this entity type'')\<rparr>)"
  using assms by (simp add: export_entity_def)

lemma export_entity_allowed:
  assumes "mapping_get (e_type e) = Some t"
    and "\<not> (version s = AC1009 \<and> t \<notin> set R12_SUPPORTED_TYPES)"
  shows "error (snd (export_entity sf w msp e s))
     \<noteq> Some (Msg ''R12 version does not support this entity type'')"
  using assms by (simp add: export_entity_def Let_def after_handler_error)

lemma export_step_failed:
  assumes "export_entity sf w (acc_msp acc) e s = (msp', r)"
    and "\<not> success r" and "dxf_type r \<noteq> None"
  shows "failed_count (export_step sf w s acc e) = failed_count acc + 1
    \<and> exported_count (export_step sf w s acc e) = exported_count acc
    \<and> skipped_count (export_step sf w s acc e) = skipped_count acc
    \<and> acc_msp (export_step sf w s acc e) = msp'"
  using assms by (simp add: export_step_def Let_def)

lemma export_step_exported:
  assumes "export_entity sf w (acc_msp acc) e s = (msp', r)" and "success r"
  shows "exported_count (export_step sf w s acc e) = exported_count acc + 1
    \<and> failed_count (export_step sf w s acc e) = failed_count acc
    \<and> skipped_count (export_step sf w s acc e) = skipped_count acc
    \<and> acc_msp (export_step sf w s acc e) = msp'"
  using assms by (simp add: export_step_def Let_def)

text \<open>
  Claim C3. For every entity whose kind the registry maps to a primitive kind, the
  version check denies exactly when the version is AC1009 (R12) and the primitive kind is
  outside LINE, POLYLINE, CIRCLE, ARC, TEXT, POINT. When it denies, export leaves the
  modelspace as it was and returns the failed result with the R12 error, the entity is
  counted as failed, and validation marks it non-exportable with exactly one issue, of
  severity ERROR and code VERSION\_INCOMPATIBLE. When it does not deny (every other
  version, and the six kinds under AC1009), validation marks the entity exportable with
  no issue and export never reports the R12 error.
\<close>

theorem version_compatibility:
  assumes "mapping_get (e_type e) = Some t"
  shows "(version s = AC1009 \<and> t \<notin> set [''LINE'', ''POLYLINE'', ''CIRCLE'', ''ARC'', ''TEXT'', ''POINT'']
      \<longrightarrow> export_entity sf w (acc_msp acc) e s =
            (acc_msp acc,
             \<lparr>entity_id = e_id e, success = False, dxf_type = Some t,
              warnings = [''Entity type '' @ quoted t @ '' not supported in R12''],
              error = Some (Msg ''R12 version does not support this entity type'')\<rparr>)
        \<and> failed_count (export_step sf w s acc e) = failed_count acc + 1
        \<and> exported_count (export_step sf w s acc e) = exported_count acc
        \<and> skipped_count (export_step sf w s acc e) = skipped_count acc
        \<and> exportable (validate_entity e (version s)) = False
        \<and> map (\<lambda>i. (severity i, code i)) (issues (validate_entity e (version s)))
            = [(SevERROR, ''VERSION_INCOMPATIBLE'')])
    \<and> (\<not> (version s = AC1009 \<and> t \<notin> set [''LINE'', ''POLYLINE'', ''CIRCLE'', ''ARC'', ''TEXT'', ''POINT''])
      \<longrightarrow> error (snd (export_entity sf w (acc_msp acc) e s))
            \<noteq> Some (Msg ''R12 version does not support this entity type'')
        \<and> exportable (validate_entity e (version s)) = True
        \<and> issues (validate_entity e (version s)) = [])"
proof (cases "version s = AC1009 \<and> t \<notin> set R12_SUPPORTED_TYPES")
  case True
  then have v: "version s = AC1009" and n: "t \<notin> set R12_SUPPORTED_TYPES" by simp_all
  note d = export_entity_denied [OF assms v n, of sf w "acc_msp acc"]
  have st: "failed_count (export_step sf w s acc e) = failed_count acc + 1
    \<and> exported_count (export_step sf w s acc e) = exported_count acc
    \<and> skipped_count (export_step sf w s acc e) = skipped_count acc
    \<and> acc_msp (export_step sf w s acc e) = acc_msp acc"
    by (rule export_step_failed [OF d]) simp_all
  have va: "exportable (validate_entity e (version s)) = False
        \<and> map (\<lambda>i. (severity i, code i)) (issues (validate_entity e (version s)))
            = [(SevERROR, ''VERSION_INCOMPATIBLE'')]"
    using assms v n by (simp add: validate_entity_def)
  have eq: "[''LINE'', ''POLYLINE'', ''CIRCLE'', ''ARC'', ''TEXT'', ''POINT''] = R12_SUPPORTED_TYPES"
    by (simp add: R12_SUPPORTED_TYPES_def)
  from True d st va show ?thesis
    unfolding eq by blast
next
  case False
  note a = export_entity_allowed [OF assms False, of sf w "acc_msp acc"]
  have va: "exportable (validate_entity e (version s)) = True
        \<and> issues (validate_entity e (version s)) = []"
    using assms False by (auto simp add: validate_entity_def)
  have eq: "[''LINE'', ''POLYLINE'', ''CIRCLE'', ''ARC'', ''TEXT'', ''POINT''] = R12_SUPPORTED_TYPES"
    by (simp add: R12_SUPPORTED_TYPES_def)
  from False a va show ?thesis
    unfolding eq by blast
qed

theorem version_compatibility_witness:
  "export_entity no_str accept_all [] spline_entity \<lparr>version = AC1009, layers = plain_layers\<rparr> =
     ([], \<lparr>entity_id = ''spline-001'', success = False, dxf_type = Some ''SPLINE'',
           warnings = [''Entity type '' @ quoted ''SPLINE'' @ '' not supported in R12''],
           error = Some (Msg ''R12 version does not support this entity type'')\<rparr>)
   \<and> map (\<lambda>i. (severity i, code i)) (issues (validate_entity spline_entity AC1009))
       = [(SevERROR, ''VERSION_INCOMPATIBLE'')]
   \<and> issues (validate_entity spline_entity AC1015) = []
   \<and> exportable (validate_entity spline_entity AC1015) = True
   \<and> exportable (validate_entity line_entity AC1009) = True"
proof -
  have sp: "mapping_get (e_type spline_entity) = Some ''SPLINE''"
    by (simp add: mapping_get_def ENTITY_TYPE_MAPPING_def spline_entity_def)
  have li: "mapping_get (e_type line_entity) = Some ''LINE''"
    by (simp add: mapping_get_def ENTITY_TYPE_MAPPING_def line_entity_def)
  show ?thesis
    using version_compatibility [OF sp, of "\<lparr>version = AC1009, layers = plain_layers\<rparr>" no_str accept_all
        "\<lparr>acc_msp = [], acc_results = [], exported_count = 0, skipped_count = 0,
          failed_count = 0, acc_warnings = []\<rparr>"]
      version_compatibility [OF sp, of "\<lparr>version = AC1015, layers = plain_layers\<rparr>" no_str accept_all
        "\<lparr>acc_msp = [], acc_results = [], exported_count = 0, skipped_count = 0,
          failed_count = 0, acc_warnings = []\<rparr>"]
      version_compatibility [OF li, of "\<lparr>version = AC1009, layers = plain_layers\<rparr>" no_str accept_all
        "\<lparr>acc_msp = [], acc_results = [], exported_count = 0, skipped_count = 0,
          failed_count = 0, acc_warnings = []\<rparr>"]
    by (simp add: spline_entity_def)
qed

section \<open>A circle of radius zero\<close>

text \<open>
  Claim C10. For every circle entity whose centre resolves and whose radius resolves to
  zero (or is absent), no primitive is added to the modelspace, the per-entity result
  reports success = true with no error, and the entity is counted as exported: the
  radius is tested for truth, and zero fails the test as an absent radius does.
\<close>

theorem circle_zero_radius:
  assumes "e_type e = ''circle''"
    and "get_point sf e [''center'', ''centerPoint''] = Inr (Some c)"
    and "get_float sf e [''radius'', ''r''] = Inr r"
    and "r = Some 0 \<or> r = None"
  shows "export_entity sf w (acc_msp acc) e s =
      (acc_msp acc, \<lparr>entity_id = e_id e, success = True, dxf_type = Some ''CIRCLE'',
                     warnings = [], error = None\<rparr>)
    \<and> exported_count (export_step sf w s acc e) = exported_count acc + 1
    \<and> failed_count (export_step sf w s acc e) = failed_count acc
    \<and> skipped_count (export_step sf w s acc e) = skipped_count acc
    \<and> acc_msp (export_step sf w s acc e) = acc_msp acc"
proof -
  have m: "mapping_get (e_type e) = Some ''CIRCLE''"
    using assms(1) by (simp add: mapping_get_def ENTITY_TYPE_MAPPING_def)
  have h: "export_circle sf w (acc_msp acc) e (common_attribs e s) = Inr (acc_msp acc)"
    using assms(2,3,4) by (auto simp add: export_circle_def)
  have ee: "export_entity sf w (acc_msp acc) e s =
      (acc_msp acc, \<lparr>entity_id = e_id e, success = True, dxf_type = Some ''CIRCLE'',
                     warnings = [], error = None\<rparr>)"
    by (simp add: export_entity_def m h Let_def after_handler_def R12_SUPPORTED_TYPES_def)
  show ?thesis
    using ee export_step_exported [OF ee] by simp
qed

theorem circle_zero_radius_witness:
  "get_point no_str zero_circle_entity [''center'', ''centerPoint''] = Inr (Some (50, 50))
   \<and> get_float no_str zero_circle_entity [''radius'', ''r''] = Inr (Some 0)
   \<and> export_entity no_str accept_all [] zero_circle_entity \<lparr>version = AC1015, layers = plain_layers\<rparr> =
      ([], \<lparr>entity_id = ''circle-001'', success = True, dxf_type = Some ''CIRCLE'',
                     warnings = [], error = None\<rparr>)
   \<and> exported_count (export_step no_str accept_all \<lparr>version = AC1015, layers = plain_layers\<rparr>
        \<lparr>acc_msp = [], acc_results = [], exported_count = 0, skipped_count = 0,
          failed_count = 0, acc_warnings = []\<rparr> zero_circle_entity) = 1"
proof -
  have t: "e_type zero_circle_entity = ''circle''"
    by (simp add: zero_circle_entity_def)
  have c: "get_point no_str zero_circle_entity [''center'', ''centerPoint''] = Inr (Some (50, 50))"
    by (simp add: zero_circle_entity_def get_point_def model_dump_def dict_get_def
        float_pair_def py_float_def float_max_int_def)
  have r: "get_float no_str zero_circle_entity [''radius'', ''r''] = Inr (Some 0)"
    by (simp add: zero_circle_entity_def get_float_def model_dump_def py_float_def
        float_max_int_def)
  show ?thesis
    using c r circle_zero_radius [OF t c r, of accept_all
        "\<lparr>acc_msp = [], acc_results = [], exported_count = 0, skipped_count = 0,
          failed_count = 0, acc_warnings = []\<rparr>" "\<lparr>version = AC1015, layers = plain_layers\<rparr>"]
    by (simp add: zero_circle_entity_def)
qed


section \<open>Geometry extraction\<close>

lemma first_parsing_Nil: "first_parsing shape data [] = None"
  by (simp add: first_parsing_def)

lemma first_parsing_Cons:
  "first_parsing shape data (k # ks) =
     (case map_of data k of
        None \<Rightarrow> first_parsing shape data ks
      | Some v \<Rightarrow> (case shape v of None \<Rightarrow> first_parsing shape data ks | Some r \<Rightarrow> Some r))"
  by (simp add: first_parsing_def split: option.splits)

lemma get_point_loop_first:
  "get_point_loop sf data keys
     = coerced (\<lambda>(x, y). float_pair sf x y) (first_parsing point_shape data keys)"
proof (induction keys)
  case Nil
  show ?case by (simp add: first_parsing_Nil coerced_def)
next
  case (Cons k ks)
  show ?case
  proof (cases "map_of data k")
    case None
    then show ?thesis by (simp add: first_parsing_Cons Cons.IH)
  next
    case (Some v)
    then show ?thesis
      by (cases v) (simp_all add: first_parsing_Cons Cons.IH point_shape_def coerced_def Let_def)
  qed
qed

lemma point_shape_simps:
  "point_shape JNone = None"
  "point_shape (JBool b) = None"
  "point_shape (JInt i) = None"
  "point_shape (JFloat r) = None"
  "point_shape (JStr s) = None"
  "point_shape (JList l) = (if length l \<ge> 2 then Some (l ! 0, l ! 1) else None)"
  "point_shape (JTuple l) = (if length l \<ge> 2 then Some (l ! 0, l ! 1) else None)"
  "point_shape (JDict d) =
     (if dict_get d ''x'' (dict_get d ''X'' JNone) \<noteq> JNone
         \<and> dict_get d ''y'' (dict_get d ''Y'' JNone) \<noteq> JNone
      then Some (dict_get d ''x'' (dict_get d ''X'' JNone), dict_get d ''y'' (dict_get d ''Y'' JNone))
      else None)"
  by (simp_all add: point_shape_def Let_def)

lemma points_of_items_coerce:
  "points_of_items sf items = coerce_points sf (List.map_filter point_shape items)"
proof (induction items)
  case Nil
  show ?case by simp
next
  case (Cons v vs)
  show ?case
    by (cases v)
      (simp_all add: Cons.IH point_shape_simps Let_def split: sum.splits)
qed

lemma coerce_points_empty: "coerce_points sf raw = Inr ps \<Longrightarrow> (ps = []) = (raw = [])"
  by (cases raw) (auto split: sum.splits)

lemma coerce_points_Nil: "coerce_points sf raw = Inr [] \<Longrightarrow> raw = []"
  using coerce_points_empty by blast

lemma get_points_loop_first:
  "get_points_loop sf data keys
     = coerced (coerce_points sf) (first_parsing points_shape data keys)"
proof (induction keys)
  case Nil
  show ?case by (simp add: first_parsing_Nil coerced_def)
next
  case (Cons k ks)
  show ?case
  proof (cases "map_of data k")
    case None
    then show ?thesis by (simp add: first_parsing_Cons Cons.IH)
  next
    case (Some v)
    show ?thesis
    proof (cases v)
      case (JList l)
      show ?thesis
      proof (cases "List.map_filter point_shape l = []")
        case True
        then show ?thesis
          using Some JList
          by (simp add: first_parsing_Cons Cons.IH points_shape_def points_of_items_coerce)
      next
        case False
        then show ?thesis
          using Some JList coerce_points_Nil [of sf "List.map_filter point_shape l"]
          by (auto simp add: first_parsing_Cons points_shape_def points_of_items_coerce
              coerced_def split: sum.splits)
      qed
    qed (simp_all add: Some first_parsing_Cons Cons.IH points_shape_def)
  qed
qed

lemma get_float_loop_first:
  "get_float_loop sf data keys = coerced (py_float sf) (first_parsing number_shape data keys)"
proof (induction keys)
  case Nil
  show ?case by (simp add: first_parsing_Nil coerced_def)
next
  case (Cons k ks)
  show ?case
  proof (cases "map_of data k")
    case None
    then show ?thesis by (simp add: first_parsing_Cons Cons.IH)
  next
    case (Some v)
    then show ?thesis
      by (cases v) (simp_all add: first_parsing_Cons Cons.IH number_shape_def coerced_def)
  qed
qed

lemma get_string_loop_first:
  "get_string_loop data keys = first_parsing string_shape data keys"
proof (induction keys)
  case Nil
  show ?case by (simp add: first_parsing_Nil)
next
  case (Cons k ks)
  show ?case
  proof (cases "map_of data k")
    case None
    then show ?thesis by (simp add: first_parsing_Cons Cons.IH)
  next
    case (Some v)
    then show ?thesis
      by (cases v) (simp_all add: first_parsing_Cons Cons.IH string_shape_def)
  qed
qed

lemma py_float_number: "is_number v \<Longrightarrow> \<exists>r. py_float sf v = Inr r"
  by (cases v) (simp_all add: is_number_def py_float_def)

lemma float_pair_numbers: "is_number x \<Longrightarrow> is_number y \<Longrightarrow> \<exists>p. float_pair sf x y = Inr p"
  using py_float_number [of x sf] py_float_number [of y sf]
  by (auto simp add: float_pair_def)

lemma py_float_number_shape:
  "number_shape v = Some u \<Longrightarrow> py_float sf u = Inl e \<Longrightarrow> e = OverflowError"
  by (cases v) (auto simp add: number_shape_def py_float_def split: if_splits)

lemma first_parsing_shape:
  "first_parsing shape data keys = Some r \<Longrightarrow> \<exists>v. shape v = Some r"
  by (induction keys) (auto simp add: first_parsing_Nil first_parsing_Cons split: option.splits)


lemma coerce_points_numbers:
  "list_all (\<lambda>(x, y). is_number x \<and> is_number y) raw \<Longrightarrow> \<exists>ps. coerce_points sf raw = Inr ps"
proof (induction raw)
  case Nil
  show ?case by simp
next
  case (Cons a raw)
  obtain x y where a: "a = (x, y)" by (cases a)
  from Cons.prems a have "is_number x" "is_number y" by simp_all
  then obtain p where p: "float_pair sf x y = Inr p"
    using float_pair_numbers by blast
  from Cons obtain ps where "coerce_points sf raw = Inr ps" by auto
  with a p show ?case by simp
qed

lemma handler_raises_line:
  assumes "get_point sf e [''start'', ''startPoint'', ''p1''] = Inl ex
      \<or> (\<exists>a. get_point sf e [''start'', ''startPoint'', ''p1''] = Inr a)
          \<and> get_point sf e [''end'', ''endPoint'', ''p2''] = Inl ex"
  shows "export_line sf w msp e atts = Inl ex"
  using assms by (auto simp add: export_line_def)

lemma handler_raises_lwpolyline:
  assumes "get_points sf e [''points'', ''vertices'', ''polygon''] = Inl ex"
  shows "export_lwpolyline sf w msp e atts = Inl ex"
  using assms by (simp add: export_lwpolyline_def)

lemma handler_raises_circle:
  assumes "get_point sf e [''center'', ''centerPoint''] = Inl ex
      \<or> (\<exists>a. get_point sf e [''center'', ''centerPoint''] = Inr a)
          \<and> get_float sf e [''radius'', ''r''] = Inl ex"
  shows "export_circle sf w msp e atts = Inl ex"
  using assms by (auto simp add: export_circle_def)

lemma handler_raises_arc:
  assumes "get_point sf e [''center'', ''centerPoint''] = Inl ex
      \<or> (\<exists>a. get_point sf e [''center'', ''centerPoint''] = Inr a)
          \<and> (get_float sf e [''radius'', ''r''] = Inl ex
             \<or> (\<exists>b. get_float sf e [''radius'', ''r''] = Inr b)
                \<and> (get_float sf e [''startAngle'', ''start_angle''] = Inl ex
                   \<or> (\<exists>c. get_float sf e [''startAngle'', ''start_angle''] = Inr c)
                      \<and> get_float sf e [''endAngle'', ''end_angle''] = Inl ex))"
  shows "export_arc sf w msp e atts = Inl ex"
  using assms by (auto simp add: export_arc_def)

lemma handler_raises_text:
  assumes "get_point sf e [''insert'', ''position'', ''location''] = Inl ex
      \<or> (\<exists>a. get_point sf e [''insert'', ''position'', ''location''] = Inr a)
          \<and> get_float sf e [''height'', ''fontSize''] = Inl ex
      \<or> (\<exists>p h t. get_point sf e [''insert'', ''position'', ''location''] = Inr (Some p)
            \<and> get_float sf e [''height'', ''fontSize''] = Inr h
            \<and> get_string e [''text'', ''content'', ''value''] = Some t \<and> t \<noteq> [])
          \<and> get_float sf e [''rotation'', ''angle''] = Inl ex"
  shows "export_text sf w msp e atts = Inl ex"
  using assms by (auto simp add: export_text_def Let_def)

lemma handler_raises_point:
  assumes "get_point sf e [''location'', ''position'', ''point''] = Inl ex"
  shows "export_point sf w msp e atts = Inl ex"
  using assms by (simp add: export_point_def)

lemma mapping_get_kinds:
  "e_type e = ''line'' \<Longrightarrow> mapping_get (e_type e) = Some ''LINE''"
  "e_type e = ''lwpolyline'' \<or> e_type e = ''rectangle'' \<or> e_type e = ''rect''
     \<Longrightarrow> mapping_get (e_type e) = Some ''LWPOLYLINE''"
  "e_type e = ''circle'' \<Longrightarrow> mapping_get (e_type e) = Some ''CIRCLE''"
  "e_type e = ''arc'' \<Longrightarrow> mapping_get (e_type e) = Some ''ARC''"
  "e_type e = ''text'' \<Longrightarrow> mapping_get (e_type e) = Some ''TEXT''"
  "e_type e = ''point'' \<Longrightarrow> mapping_get (e_type e) = Some ''POINT''"
  by (auto simp add: mapping_get_def ENTITY_TYPE_MAPPING_def)

lemma caught_line:
  assumes "e_type e = ''line''" and "export_line sf w msp e (common_attribs e s) = Inl ex"
  shows "export_entity sf w msp e s = (msp, raised_result e ''LINE'' ex)"
  using assms(2) mapping_get_kinds(1) [OF assms(1)]
  by (simp add: export_entity_def Let_def after_handler_def R12_SUPPORTED_TYPES_def)

lemma caught_lwpolyline:
  assumes "e_type e = ''lwpolyline'' \<or> e_type e = ''rectangle'' \<or> e_type e = ''rect''"
    and "version s \<noteq> AC1009"
    and "export_lwpolyline sf w msp e (common_attribs e s) = Inl ex"
  shows "export_entity sf w msp e s = (msp, raised_result e ''LWPOLYLINE'' ex)"
  using assms(2,3) mapping_get_kinds(2) [OF assms(1)]
  by (simp add: export_entity_def Let_def after_handler_def)

lemma caught_circle:
  assumes "e_type e = ''circle''" and "export_circle sf w msp e (common_attribs e s) = Inl ex"
  shows "export_entity sf w msp e s = (msp, raised_result e ''CIRCLE'' ex)"
  using assms(2) mapping_get_kinds(3) [OF assms(1)]
  by (simp add: export_entity_def Let_def after_handler_def R12_SUPPORTED_TYPES_def)

lemma caught_arc:
  assumes "e_type e = ''arc''" and "export_arc sf w msp e (common_attribs e s) = Inl ex"
  shows "export_entity sf w msp e s = (msp, raised_result e ''ARC'' ex)"
  using assms(2) mapping_get_kinds(4) [OF assms(1)]
  by (simp add: export_entity_def Let_def after_handler_def R12_SUPPORTED_TYPES_def)

lemma caught_text:
  assumes "e_type e = ''text''" and "export_text sf w msp e (common_attribs e s) = Inl ex"
  shows "export_entity sf w msp e s = (msp, raised_result e ''TEXT'' ex)"
  using assms(2) mapping_get_kinds(5) [OF assms(1)]
  by (simp add: export_entity_def Let_def after_handler_def R12_SUPPORTED_TYPES_def)

lemma caught_point:
  assumes "e_type e = ''point''" and "export_point sf w msp e (common_attribs e s) = Inl ex"
  shows "export_entity sf w msp e s = (msp, raised_result e ''POINT'' ex)"
  using assms(2) mapping_get_kinds(6) [OF assms(1)]
  by (simp add: export_entity_def Let_def after_handler_def R12_SUPPORTED_TYPES_def)

text \<open>
  The sentence of claim C4 fails on a malformed coordinate: \<open>float()\<close> raises inside the
  extractor. A sequence whose first item is \<open>None\<close> raises \<open>TypeError\<close> although the next
  alias holds a well-formed point, and so does a mapping whose \<open>x\<close> is a list.
\<close>

theorem extraction_raises_counterexample:
  "get_point no_str malformed_sequence_entity [''start'', ''startPoint'', ''p1''] = Inl TypeError
   \<and> get_point no_str malformed_mapping_entity [''center'', ''centerPoint''] = Inl TypeError"
  by (simp add: more_defs get_point_def model_dump_def dict_get_def float_pair_def py_float_def)

text \<open>
  Claim C4, amended. For every entity and every ordered alias list, each extractor settles
  on the first alias whose value exists and has the requested shape, and on none when no
  alias has it; the result is then absent, or that value coerced by \<open>float()\<close>. The string
  extractor never raises. The number extractor raises only \<open>OverflowError\<close> (an integer
  beyond the range of a double). The point and point-list extractors raise what \<open>float()\<close>
  raises on a coordinate of the alias they settled on, and do not raise when those
  coordinates are numbers in range. An exception raised by an extraction that a handler
  performs (in the handler's order: the earlier extractions having returned) is caught by
  the export of the entity: the modelspace stays as it was and the result is the failed
  one, with the kind and \<open>str(e)\<close> of that exception.
\<close>

theorem extraction_first_alias:
  "get_point sf e keys
     = coerced (\<lambda>(x, y). float_pair sf x y) (first_parsing point_shape (model_dump e) keys)
   \<and> get_points sf e keys
     = coerced (coerce_points sf) (first_parsing points_shape (model_dump e) keys)
   \<and> get_float sf e keys
     = coerced (py_float sf) (first_parsing number_shape (model_dump e) keys)
   \<and> get_string e keys = first_parsing string_shape (model_dump e) keys
   \<and> (get_float sf e keys = Inl ex \<longrightarrow> ex = OverflowError)
   \<and> ((case first_parsing point_shape (model_dump e) keys of
         None \<Rightarrow> True | Some (x, y) \<Rightarrow> is_number x \<and> is_number y)
       \<longrightarrow> (\<exists>r. get_point sf e keys = Inr r))
   \<and> ((case first_parsing points_shape (model_dump e) keys of
         None \<Rightarrow> True | Some raw \<Rightarrow> list_all (\<lambda>(x, y). is_number x \<and> is_number y) raw)
       \<longrightarrow> (\<exists>r. get_points sf e keys = Inr r))
   \<and> (e_type e = ''line''
        \<and> (get_point sf e [''start'', ''startPoint'', ''p1''] = Inl ex
           \<or> (\<exists>a. get_point sf e [''start'', ''startPoint'', ''p1''] = Inr a)
              \<and> get_point sf e [''end'', ''endPoint'', ''p2''] = Inl ex)
       \<longrightarrow> export_entity sf w msp e s = (msp, raised_result e ''LINE'' ex))
   \<and> ((e_type e = ''lwpolyline'' \<or> e_type e = ''rectangle'' \<or> e_type e = ''rect'')
        \<and> version s \<noteq> AC1009
        \<and> get_points sf e [''points'', ''vertices'', ''polygon''] = Inl ex
       \<longrightarrow> export_entity sf w msp e s = (msp, raised_result e ''LWPOLYLINE'' ex))
   \<and> (e_type e = ''circle''
        \<and> (get_point sf e [''center'', ''centerPoint''] = Inl ex
           \<or> (\<exists>a. get_point sf e [''center'', ''centerPoint''] = Inr a)
              \<and> get_float sf e [''radius'', ''r''] = Inl ex)
       \<longrightarrow> export_entity sf w msp e s = (msp, raised_result e ''CIRCLE'' ex))
   \<and> (e_type e = ''arc''
        \<and> (get_point sf e [''center'', ''centerPoint''] = Inl ex
           \<or> (\<exists>a. get_point sf e [''center'', ''centerPoint''] = Inr a)
              \<and> (get_float sf e [''radius'', ''r''] = Inl ex
                 \<or> (\<exists>b. get_float sf e [''radius'', ''r''] = Inr b)
                    \<and> (get_float sf e [''startAngle'', ''start_angle''] = Inl ex
                       \<or> (\<exists>c. get_float sf e [''startAngle'', ''start_angle''] = Inr c)
                          \<and> get_float sf e [''endAngle'', ''end_angle''] = Inl ex)))
       \<longrightarrow> export_entity sf w msp e s = (msp, raised_result e ''ARC'' ex))
   \<and> (e_type e = ''text''
        \<and> (get_point sf e [''insert'', ''position'', ''location''] = Inl ex
           \<or> (\<exists>a. get_point sf e [''insert'', ''position'', ''location''] = Inr a)
              \<and> get_float sf e [''height'', ''fontSize''] = Inl ex
           \<or> (\<exists>p h t. get_point sf e [''insert'', ''position'', ''location''] = Inr (Some p)
                 \<and> get_float sf e [''height'', ''fontSize''] = Inr h
                 \<and> get_string e [''text'', ''content'', ''value''] = Some t \<and> t \<noteq> [])
              \<and> get_float sf e [''rotation'', ''angle''] = Inl ex)
       \<longrightarrow> export_entity sf w msp e s = (msp, raised_result e ''TEXT'' ex))
   \<and> (e_type e = ''point''
        \<and> get_point sf e [''location'', ''position'', ''point''] = Inl ex
       \<longrightarrow> export_entity sf w msp e s = (msp, raised_result e ''POINT'' ex))"
proof -
  have p: "get_point sf e keys
     = coerced (\<lambda>(x, y). float_pair sf x y) (first_parsing point_shape (model_dump e) keys)"
    by (simp add: get_point_def get_point_loop_first)
  have ps: "get_points sf e keys
     = coerced (coerce_points sf) (first_parsing points_shape (model_dump e) keys)"
    by (simp add: get_points_def get_points_loop_first)
  have f: "get_float sf e keys
     = coerced (py_float sf) (first_parsing number_shape (model_dump e) keys)"
    by (simp add: get_float_def get_float_loop_first)
  have s: "get_string e keys = first_parsing string_shape (model_dump e) keys"
    by (simp add: get_string_def get_string_loop_first)
  have fo: "get_float sf e keys = Inl ex \<longrightarrow> ex = OverflowError"
  proof
    assume a: "get_float sf e keys = Inl ex"
    then obtain u where u: "first_parsing number_shape (model_dump e) keys = Some u"
      and pf: "py_float sf u = Inl ex"
      unfolding f by (auto simp add: coerced_def split: option.splits sum.splits)
    from first_parsing_shape [OF u] obtain v where "number_shape v = Some u" by blast
    from py_float_number_shape [OF this pf] show "ex = OverflowError" .
  qed
  have pt: "(case first_parsing point_shape (model_dump e) keys of
         None \<Rightarrow> True | Some (x, y) \<Rightarrow> is_number x \<and> is_number y)
       \<longrightarrow> (\<exists>r. get_point sf e keys = Inr r)"
    unfolding p using float_pair_numbers [of _ _ sf]
    by (fastforce simp add: coerced_def split: option.splits sum.splits)
  have pst: "(case first_parsing points_shape (model_dump e) keys of
         None \<Rightarrow> True | Some raw \<Rightarrow> list_all (\<lambda>(x, y). is_number x \<and> is_number y) raw)
       \<longrightarrow> (\<exists>r. get_points sf e keys = Inr r)"
    unfolding ps using coerce_points_numbers [of _ sf]
    by (fastforce simp add: coerced_def split: option.splits sum.splits)
  have cl: "e_type e = ''line''
        \<and> (get_point sf e [''start'', ''startPoint'', ''p1''] = Inl ex
           \<or> (\<exists>a. get_point sf e [''start'', ''startPoint'', ''p1''] = Inr a)
              \<and> get_point sf e [''end'', ''endPoint'', ''p2''] = Inl ex)
       \<longrightarrow> export_entity sf w msp e s = (msp, raised_result e ''LINE'' ex)"
    using caught_line [OF _ handler_raises_line] by blast
  have clw: "(e_type e = ''lwpolyline'' \<or> e_type e = ''rectangle'' \<or> e_type e = ''rect'')
        \<and> version s \<noteq> AC1009
        \<and> get_points sf e [''points'', ''vertices'', ''polygon''] = Inl ex
       \<longrightarrow> export_entity sf w msp e s = (msp, raised_result e ''LWPOLYLINE'' ex)"
    using caught_lwpolyline [OF _ _ handler_raises_lwpolyline] by blast
  have cc: "e_type e = ''circle''
        \<and> (get_point sf e [''center'', ''centerPoint''] = Inl ex
           \<or> (\<exists>a. get_point sf e [''center'', ''centerPoint''] = Inr a)
              \<and> get_float sf e [''radius'', ''r''] = Inl ex)
       \<longrightarrow> export_entity sf w msp e s = (msp, raised_result e ''CIRCLE'' ex)"
    using caught_circle [OF _ handler_raises_circle] by blast
  have ca: "e_type e = ''arc''
        \<and> (get_point sf e [''center'', ''centerPoint''] = Inl ex
           \<or> (\<exists>a. get_point sf e [''center'', ''centerPoint''] = Inr a)
              \<and> (get_float sf e [''radius'', ''r''] = Inl ex
                 \<or> (\<exists>b. get_float sf e [''radius'', ''r''] = Inr b)
                    \<and> (get_float sf e [''startAngle'', ''start_angle''] = Inl ex
                       \<or> (\<exists>c. get_float sf e [''startAngle'', ''start_angle''] = Inr c)
                          \<and> get_float sf e [''endAngle'', ''end_angle''] = Inl ex)))
       \<longrightarrow> export_entity sf w msp e s = (msp, raised_result e ''ARC'' ex)"
    using caught_arc [OF _ handler_raises_arc] by blast
  have ct: "e_type e = ''text''
        \<and> (get_point sf e [''insert'', ''position'', ''location''] = Inl ex
           \<or> (\<exists>a. get_point sf e [''insert'', ''position'', ''location''] = Inr a)
              \<and> get_float sf e [''height'', ''fontSize''] = Inl ex
           \<or> (\<exists>p h t. get_point sf e [''insert'', ''position'', ''location''] = Inr (Some p)
                 \<and> get_float sf e [''height'', ''fontSize''] = Inr h
                 \<and> get_string e [''text'', ''content'', ''value''] = Some t \<and> t \<noteq> [])
              \<and> get_float sf e [''rotation'', ''angle''] = Inl ex)
       \<longrightarrow> export_entity sf w msp e s = (msp, raised_result e ''TEXT'' ex)"
    using caught_text [OF _ handler_raises_text] by blast
  have cp: "e_type e = ''point''
        \<and> get_point sf e [''location'', ''position'', ''point''] = Inl ex
       \<longrightarrow> export_entity sf w msp e s = (msp, raised_result e ''POINT'' ex)"
    using caught_point [OF _ handler_raises_point] by blast
  show ?thesis
    by (intro conjI) (rule p ps f s fo pt pst cl clw cc ca ct cp)+
qed

theorem extraction_first_alias_witness:
  "get_point no_str line_entity [''start'', ''startPoint'', ''p1''] = Inr (Some (0, 0))
   \<and> get_points no_str rect_entity [''points'', ''vertices'', ''polygon'']
       = Inr (Some [(0, 0), (100, 0), (100, 50), (0, 50)])
   \<and> get_float no_str zero_circle_entity [''r'', ''radius''] = Inr (Some 0)
   \<and> get_string line_entity [''text'', ''content'', ''value''] = None
   \<and> get_string line_entity [''text'', ''layer''] = Some ''0''
   \<and> export_entity no_str accept_all [] malformed_sequence_entity
        \<lparr>version = AC1015, layers = plain_layers\<rparr>
       = ([], \<lparr>entity_id = ''line-004'', success = False, dxf_type = Some ''LINE'',
               warnings = [], error = Some (StrOf TypeError)\<rparr>)
   \<and> export_entity no_str accept_all [] malformed_mapping_entity
        \<lparr>version = AC1009, layers = plain_layers\<rparr>
       = ([], \<lparr>entity_id = ''circle-002'', success = False, dxf_type = Some ''CIRCLE'',
               warnings = [], error = Some (StrOf TypeError)\<rparr>)"
proof -
  have fp: "first_parsing point_shape (model_dump line_entity) [''start'', ''startPoint'', ''p1'']
      = Some (JInt 0, JInt 0)"
    by (simp add: first_parsing_Cons first_parsing_Nil Let_def model_dump_def line_entity_def
        point_shape_def dict_get_def)
  have fps: "first_parsing points_shape (model_dump rect_entity) [''points'', ''vertices'', ''polygon'']
      = Some [(JInt 0, JInt 0), (JInt 100, JInt 0), (JInt 100, JInt 50), (JInt 0, JInt 50)]"
    by (simp add: first_parsing_Cons first_parsing_Nil Let_def model_dump_def rect_entity_def
        points_shape_def point_shape_def dict_get_def)
  have ff: "first_parsing number_shape (model_dump zero_circle_entity) [''r'', ''radius'']
      = Some (JInt 0)"
    by (simp add: first_parsing_Cons first_parsing_Nil Let_def model_dump_def
        zero_circle_entity_def number_shape_def)
  have fs: "first_parsing string_shape (model_dump line_entity) [''text'', ''content'', ''value'']
      = None"
    by (simp add: first_parsing_Cons first_parsing_Nil Let_def model_dump_def line_entity_def
        string_shape_def)
  have fs2: "first_parsing string_shape (model_dump line_entity) [''text'', ''layer'']
      = Some ''0''"
    by (simp add: first_parsing_Cons first_parsing_Nil Let_def model_dump_def line_entity_def
        string_shape_def)
  have pf0: "py_float no_str (JInt 0) = Inr 0" and pf100: "py_float no_str (JInt 100) = Inr 100"
    and pf50: "py_float no_str (JInt 50) = Inr 50"
    by (simp_all add: py_float_def float_max_int_def)
  have vals: "get_point no_str line_entity [''start'', ''startPoint'', ''p1''] = Inr (Some (0, 0))
   \<and> get_points no_str rect_entity [''points'', ''vertices'', ''polygon'']
       = Inr (Some [(0, 0), (100, 0), (100, 50), (0, 50)])
   \<and> get_float no_str zero_circle_entity [''r'', ''radius''] = Inr (Some 0)
   \<and> get_string line_entity [''text'', ''content'', ''value''] = None
   \<and> get_string line_entity [''text'', ''layer''] = Some ''0''"
    using extraction_first_alias [where sf = no_str and e = line_entity
        and keys = "[''start'', ''startPoint'', ''p1'']"]
      extraction_first_alias [where sf = no_str and e = rect_entity
        and keys = "[''points'', ''vertices'', ''polygon'']"]
      extraction_first_alias [where sf = no_str and e = zero_circle_entity
        and keys = "[''r'', ''radius'']"]
      extraction_first_alias [where e = line_entity and keys = "[''text'', ''content'', ''value'']"]
      extraction_first_alias [where e = line_entity and keys = "[''text'', ''layer'']"]
    by (simp add: fp fps ff fs fs2 coerced_def float_pair_def pf0 pf100 pf50)
  have rs: "get_point no_str malformed_sequence_entity [''start'', ''startPoint'', ''p1'']
      = Inl TypeError"
    by (simp add: malformed_sequence_entity_def get_point_def model_dump_def float_pair_def
        py_float_def)
  have rm: "get_point no_str malformed_mapping_entity [''center'', ''centerPoint'']
      = Inl TypeError"
    by (simp add: malformed_mapping_entity_def get_point_def model_dump_def dict_get_def
        float_pair_def py_float_def)
  have ts: "e_type malformed_sequence_entity = ''line''"
    and ids: "e_id malformed_sequence_entity = ''line-004''"
    and tm: "e_type malformed_mapping_entity = ''circle''"
    and idm: "e_id malformed_mapping_entity = ''circle-002''"
    by (simp_all add: malformed_sequence_entity_def malformed_mapping_entity_def)
  have caught_s: "export_entity no_str accept_all [] malformed_sequence_entity
        \<lparr>version = AC1015, layers = plain_layers\<rparr>
       = ([], \<lparr>entity_id = ''line-004'', success = False, dxf_type = Some ''LINE'',
               warnings = [], error = Some (StrOf TypeError)\<rparr>)"
    using extraction_first_alias [where sf = no_str and e = malformed_sequence_entity
        and ex = TypeError and w = accept_all and msp = "[]"
        and s = "\<lparr>version = AC1015, layers = plain_layers\<rparr>"]
    by (simp add: rs ts ids)
  have caught_m: "export_entity no_str accept_all [] malformed_mapping_entity
        \<lparr>version = AC1009, layers = plain_layers\<rparr>
       = ([], \<lparr>entity_id = ''circle-002'', success = False, dxf_type = Some ''CIRCLE'',
               warnings = [], error = Some (StrOf TypeError)\<rparr>)"
    using extraction_first_alias [where sf = no_str and e = malformed_mapping_entity
        and ex = TypeError and w = accept_all and msp = "[]"
        and s = "\<lparr>version = AC1009, layers = plain_layers\<rparr>"]
    by (simp add: rm tm idm)
  from vals caught_s caught_m show ?thesis by simp
qed

section \<open>Polylines and rectangles\<close>

lemma get_bool_closed:
  "get_bool e [''closed'', ''isClosed''] =
     (case map_of (model_dump e) ''closed'' of
        Some (JBool b) \<Rightarrow> b
      | _ \<Rightarrow> (case map_of (model_dump e) ''isClosed'' of Some (JBool b) \<Rightarrow> b | _ \<Rightarrow> False))"
  by (simp add: get_bool_def split: option.splits jval.splits)

text \<open>
  The sentence of claim C5 fails for the kind \<open>polyline\<close>: the registry maps it to
  \<open>POLYLINE\<close>, which the dispatch does not handle, so with two resolvable points under
  AC1015 the result is the failed one of the last branch and nothing is drawn.
\<close>

theorem polyline_kind_counterexample:
  "get_points no_str polyline_entity [''points'', ''vertices'', ''polygon'']
     = Inr (Some [(0, 0), (10, 0)])
   \<and> export_entity no_str accept_all [] polyline_entity \<lparr>version = AC1015, layers = plain_layers\<rparr>
     = ([], \<lparr>entity_id = ''poly-001'', success = False, dxf_type = Some ''POLYLINE'',
             warnings = [''Export for '' @ quoted ''POLYLINE'' @ '' not yet implemented''],
             error = Some (Msg ''Entity type export not implemented'')\<rparr>)"
  by (simp add: eval_defs sample_defs more_defs)

lemma sample_points:
  "get_points no_str rect_entity [''points'', ''vertices'', ''polygon'']
      = Inr (Some [(0, 0), (100, 0), (100, 50), (0, 50)])"
  "get_points no_str open_lwpolyline_entity [''points'', ''vertices'', ''polygon'']
      = Inr (Some [(0, 0), (10, 0)])"
  "get_points no_str closed_lwpolyline_entity [''points'', ''vertices'', ''polygon'']
      = Inr (Some [(0, 0), (10, 0)])"
  by (simp_all add: rect_entity_def open_lwpolyline_entity_def closed_lwpolyline_entity_def
      get_points_def model_dump_def dict_get_def float_pair_def py_float_def float_max_int_def
      Let_def)

lemma sample_attribs:
  "common_attribs rect_entity \<lparr>version = AC1015, layers = plain_layers\<rparr>
      = \<lparr>a_layer = ''Layer1'', a_color = Some 1, a_height = None, a_rotation = None\<rparr>"
  "common_attribs open_lwpolyline_entity \<lparr>version = AC1015, layers = plain_layers\<rparr>
      = \<lparr>a_layer = ''0'', a_color = None, a_height = None, a_rotation = None\<rparr>"
  "common_attribs closed_lwpolyline_entity \<lparr>version = AC1015, layers = plain_layers\<rparr>
      = \<lparr>a_layer = ''0'', a_color = None, a_height = None, a_rotation = None\<rparr>"
  by (simp_all add: common_attribs_def get_target_layer_def str_or_def hex_to_aci_def
      color_map_def upper_char_def rect_entity_def open_lwpolyline_entity_def
      closed_lwpolyline_entity_def plain_layers_def Let_def)

text \<open>
  Claim C5, amended. For every entity of kind \<open>lwpolyline\<close>, \<open>rectangle\<close> or \<open>rect\<close> under a
  target version other than AC1009, if the point list resolves to at least two points and
  the document writer accepts the primitive, then one polyline primitive with these
  points is appended to the modelspace and the result has success = true. The primitive
  is closed when the kind is \<open>rectangle\<close> or \<open>rect\<close>, whatever the fields say; otherwise
  its closedness is the value of the field \<open>closed\<close> when that field holds a boolean, else
  the value of the field \<open>isClosed\<close> when that one holds a boolean, else false. So
  \<open>closed = false\<close> gives an open polyline even beside \<open>isClosed = true\<close>.
\<close>

theorem lwpolyline_emitted:
  assumes "e_type e = ''lwpolyline'' \<or> e_type e = ''rectangle'' \<or> e_type e = ''rect''"
    and "version s \<noteq> AC1009"
    and "get_points sf e [''points'', ''vertices'', ''polygon''] = Inr (Some ps)"
    and "length ps \<ge> 2"
    and "is_closed =
          (e_type e = ''rectangle'' \<or> e_type e = ''rect''
           \<or> (case map_of (model_dump e) ''closed'' of
                 Some (JBool b) \<Rightarrow> b
               | _ \<Rightarrow> (case map_of (model_dump e) ''isClosed'' of
                          Some (JBool b) \<Rightarrow> b | _ \<Rightarrow> False)))"
    and "w (LwPolyline ps is_closed (common_attribs e s)) = None"
  shows "export_entity sf w msp e s =
      (msp @ [LwPolyline ps is_closed (common_attribs e s)],
       \<lparr>entity_id = e_id e, success = True, dxf_type = Some ''LWPOLYLINE'',
        warnings = [], error = None\<rparr>)"
proof -
  have m: "mapping_get (e_type e) = Some ''LWPOLYLINE''"
    using assms(1) by (auto simp add: mapping_get_def ENTITY_TYPE_MAPPING_def)
  have ne: "ps \<noteq> []"
    using assms(4) by auto
  have c: "(if e_type e = ''rectangle'' \<or> e_type e = ''rect'' then True
            else get_bool e [''closed'', ''isClosed'']) = is_closed"
    unfolding assms(5) get_bool_closed by simp
  have h: "export_lwpolyline sf w msp e (common_attribs e s) =
      Inr (msp @ [LwPolyline ps is_closed (common_attribs e s)])"
    unfolding export_lwpolyline_def Let_def c
    using assms(3,4,6) ne by (simp add: add_entity_def)
  show ?thesis
    using assms(2) by (simp add: export_entity_def m h Let_def after_handler_def)
qed

theorem lwpolyline_emitted_witness:
  "export_entity no_str accept_all [] rect_entity \<lparr>version = AC1015, layers = plain_layers\<rparr> =
     ([LwPolyline [(0, 0), (100, 0), (100, 50), (0, 50)] True
         \<lparr>a_layer = ''Layer1'', a_color = Some 1, a_height = None, a_rotation = None\<rparr>],
      \<lparr>entity_id = ''rect-001'', success = True, dxf_type = Some ''LWPOLYLINE'',
       warnings = [], error = None\<rparr>)
   \<and> export_entity no_str accept_all [] closed_lwpolyline_entity
        \<lparr>version = AC1015, layers = plain_layers\<rparr> =
     ([LwPolyline [(0, 0), (10, 0)] True
         \<lparr>a_layer = ''0'', a_color = None, a_height = None, a_rotation = None\<rparr>],
      \<lparr>entity_id = ''lw-002'', success = True, dxf_type = Some ''LWPOLYLINE'',
       warnings = [], error = None\<rparr>)
   \<and> export_entity no_str accept_all [] open_lwpolyline_entity
        \<lparr>version = AC1015, layers = plain_layers\<rparr> =
     ([LwPolyline [(0, 0), (10, 0)] False
         \<lparr>a_layer = ''0'', a_color = None, a_height = None, a_rotation = None\<rparr>],
      \<lparr>entity_id = ''lw-001'', success = True, dxf_type = Some ''LWPOLYLINE'',
       warnings = [], error = None\<rparr>)"
proof -
  have v: "version \<lparr>version = AC1015, layers = plain_layers\<rparr> \<noteq> AC1009"
    by simp
  have rect: "export_entity no_str accept_all [] rect_entity \<lparr>version = AC1015, layers = plain_layers\<rparr> =
     ([LwPolyline [(0, 0), (100, 0), (100, 50), (0, 50)] True
         \<lparr>a_layer = ''Layer1'', a_color = Some 1, a_height = None, a_rotation = None\<rparr>],
      \<lparr>entity_id = ''rect-001'', success = True, dxf_type = Some ''LWPOLYLINE'',
       warnings = [], error = None\<rparr>)"
    using lwpolyline_emitted [where e = rect_entity and w = accept_all and msp = "[]"
        and is_closed = True, OF _ v sample_points(1)]
    unfolding sample_attribs
    by (simp add: rect_entity_def accept_all_def)
  have closed_one: "export_entity no_str accept_all [] closed_lwpolyline_entity
        \<lparr>version = AC1015, layers = plain_layers\<rparr> =
     ([LwPolyline [(0, 0), (10, 0)] True
         \<lparr>a_layer = ''0'', a_color = None, a_height = None, a_rotation = None\<rparr>],
      \<lparr>entity_id = ''lw-002'', success = True, dxf_type = Some ''LWPOLYLINE'',
       warnings = [], error = None\<rparr>)"
    using lwpolyline_emitted [where e = closed_lwpolyline_entity and w = accept_all
        and msp = "[]" and is_closed = True, OF _ v sample_points(3)]
    unfolding sample_attribs
    by (simp add: closed_lwpolyline_entity_def accept_all_def model_dump_def)
  have opened: "export_entity no_str accept_all [] open_lwpolyline_entity
        \<lparr>version = AC1015, layers = plain_layers\<rparr> =
     ([LwPolyline [(0, 0), (10, 0)] False
         \<lparr>a_layer = ''0'', a_color = None, a_height = None, a_rotation = None\<rparr>],
      \<lparr>entity_id = ''lw-001'', success = True, dxf_type = Some ''LWPOLYLINE'',
       warnings = [], error = None\<rparr>)"
    using lwpolyline_emitted [where e = open_lwpolyline_entity and w = accept_all
        and msp = "[]" and is_closed = False, OF _ v sample_points(2)]
    unfolding sample_attribs
    by (simp add: open_lwpolyline_entity_def accept_all_def model_dump_def)
  from rect closed_one opened show ?thesis by simp
qed

section \<open>Missing geometry\<close>

text \<open>
  Claim C1 asks for a failed result when a handler cannot resolve its required fields.
  The code at a line entity with neither start nor end point: both extractions return
  absent, nothing is added to the modelspace, and yet the per-entity result has
  success = true with no error; the scene's stats count the entity as exported, none as
  failed, and the status is SUCCESS over an empty document.
\<close>

theorem missing_geometry_reports_success:
  "get_point no_str bare_line_entity [''start'', ''startPoint'', ''p1''] = Inr None
   \<and> get_point no_str bare_line_entity [''end'', ''endPoint'', ''p2''] = Inr None
   \<and> export_entity no_str accept_all [] bare_line_entity \<lparr>version = AC1015, layers = plain_layers\<rparr>
     = ([], \<lparr>entity_id = ''line-003'', success = True, dxf_type = Some ''LINE'',
             warnings = [], error = None\<rparr>)
   \<and> stats (export_scene no_str accept_all \<lparr>entities = [bare_line_entity]\<rparr>
        \<lparr>version = AC1015, layers = plain_layers\<rparr> None None)
     = \<lparr>total_entities = 1, exported_entities = 1, skipped_entities = 0, failed_entities = 0\<rparr>
   \<and> document (export_scene no_str accept_all \<lparr>entities = [bare_line_entity]\<rparr>
        \<lparr>version = AC1015, layers = plain_layers\<rparr> None None) = []
   \<and> status (export_scene no_str accept_all \<lparr>entities = [bare_line_entity]\<rparr>
        \<lparr>version = AC1015, layers = plain_layers\<rparr> None None) = SUCCESS"
  by (simp add: eval_defs sample_defs more_defs)


end
